theory Spec2Isabelle
  imports Complex_Main "HOL-Library.AList"
begin

section \<open>Data model (app/models)\<close>

text \<open>
  The Python enumerations become datatypes. Two distinct classes are called
  \<^verbatim>\<open>PolicyCategory\<close> in the source: the one of \<^verbatim>\<open>models/moderation.py\<close> has six
  members (it includes \<^verbatim>\<open>NONE\<close>), the one of \<^verbatim>\<open>models/policy.py\<close> has five. The decider
  compares them through their string values, so both are kept, each with its
  \<^verbatim>\<open>.value\<close> function.

  Floats are only ever compared (\<open>\<le>\<close>, \<open>\<ge>\<close>) by the modelled code, after validation
  has excluded NaN, so they are embedded order-preservingly into \<^typ>\<open>real\<close>.
  Values drawn from the environment (\<^verbatim>\<open>uuid4\<close> identifiers and \<^verbatim>\<open>datetime.utcnow()\<close>
  readings) are explicit arguments of the function that draws them; a timestamp is a
  natural number of clock ticks.
\<close>

datatype PolicyCategory = HARASSMENT | HATE_SPEECH | SPAM | VIOLENCE | ADULT_CONTENT | CAT_NONE

fun category_value :: "PolicyCategory \<Rightarrow> string" where
  "category_value HARASSMENT = ''harassment''"
| "category_value HATE_SPEECH = ''hate_speech''"
| "category_value SPAM = ''spam''"
| "category_value VIOLENCE = ''violence''"
| "category_value ADULT_CONTENT = ''adult_content''"
| "category_value CAT_NONE = ''none''"

datatype PolicyCategory_p = P_HARASSMENT | P_HATE_SPEECH | P_SPAM | P_VIOLENCE | P_ADULT_CONTENT

fun policy_category_value :: "PolicyCategory_p \<Rightarrow> string" where
  "policy_category_value P_HARASSMENT = ''harassment''"
| "policy_category_value P_HATE_SPEECH = ''hate_speech''"
| "policy_category_value P_SPAM = ''spam''"
| "policy_category_value P_VIOLENCE = ''violence''"
| "policy_category_value P_ADULT_CONTENT = ''adult_content''"

datatype ModerationAction = ACT_NONE | WARN | MUTE | FLAG_FOR_REVIEW

fun action_value :: "ModerationAction \<Rightarrow> string" where
  "action_value ACT_NONE = ''none''"
| "action_value WARN = ''warn''"
| "action_value MUTE = ''mute''"
| "action_value FLAG_FOR_REVIEW = ''flag_for_review''"

datatype ModerationStatus = PENDING | EXECUTED | REVIEWED | OVERTURNED

datatype ContentType = TEXT | AUDIO_TRANSCRIPT | VIDEO_FRAME

datatype AuditActionType =
    DECISION_CREATED | ACTION_EXECUTED | POLICY_UPDATED | DECISION_REVIEWED
  | DECISION_OVERTURNED | PARTICIPANT_WARNED | PARTICIPANT_MUTED | CONTENT_FLAGGED

datatype AuditActor = SYSTEM | AI | ADMIN

fun audit_action_type_value :: "AuditActionType \<Rightarrow> string" where
  "audit_action_type_value DECISION_CREATED = ''decision_created''"
| "audit_action_type_value ACTION_EXECUTED = ''action_executed''"
| "audit_action_type_value POLICY_UPDATED = ''policy_updated''"
| "audit_action_type_value DECISION_REVIEWED = ''decision_reviewed''"
| "audit_action_type_value DECISION_OVERTURNED = ''decision_overturned''"
| "audit_action_type_value PARTICIPANT_WARNED = ''participant_warned''"
| "audit_action_type_value PARTICIPANT_MUTED = ''participant_muted''"
| "audit_action_type_value CONTENT_FLAGGED = ''content_flagged''"

fun audit_actor_value :: "AuditActor \<Rightarrow> string" where
  "audit_actor_value SYSTEM = ''system''"
| "audit_actor_value AI = ''ai''"
| "audit_actor_value ADMIN = ''admin''"

text \<open>Free-form \<^verbatim>\<open>dict\<close> payloads (the \<^verbatim>\<open>metadata\<close> of an input) are JSON values.\<close>

datatype json =
    JNull | JBool bool | JNum real | JStr string
  | JList "json list" | JDict "(string \<times> json) list"

text \<open>
  Record fields carry a prefix naming their class, since several classes share field
  names: \<open>p_\<close> for \<^verbatim>\<open>Policy\<close>, \<open>u_\<close> for \<^verbatim>\<open>PolicyUpdate\<close>, \<open>i_\<close> for \<^verbatim>\<open>ModerationInput\<close>,
  \<open>d_\<close> for \<^verbatim>\<open>ModerationDecision\<close>, \<open>a_\<close> for \<^verbatim>\<open>AuditLogEntry\<close>.
\<close>

record Policy =
  p_policy_id :: string
  p_name :: string
  p_category :: PolicyCategory_p
  p_description :: string
  p_warn_threshold :: real
  p_mute_threshold :: real
  p_flag_threshold :: real
  p_enabled :: bool
  p_created_at :: nat
  p_updated_at :: nat

record PolicyUpdate =
  u_name :: "string option"
  u_description :: "string option"
  u_warn_threshold :: "real option"
  u_mute_threshold :: "real option"
  u_flag_threshold :: "real option"
  u_enabled :: "bool option"

record ModerationInput =
  i_room_id :: string
  i_participant_id :: string
  i_participant_identity :: string
  i_content :: string
  i_content_type :: ContentType
  i_metadata :: "json option"

record ModerationDecision =
  d_decision_id :: string
  d_room_id :: string
  d_participant_id :: string
  d_participant_identity :: string
  d_content :: string
  d_content_type :: ContentType
  d_classification :: PolicyCategory
  d_confidence_score :: real
  d_action :: ModerationAction
  d_status :: ModerationStatus
  d_policy_id :: "string option"
  d_timestamp :: nat
  d_reasoning :: "string option"
  d_metadata :: "json option"

text \<open>
  The \<^verbatim>\<open>metadata\<close> dict of an audit entry has one shape per call site; each shape is a
  constructor. \<^verbatim>\<open>model_dump(mode="json")\<close> builds a new dict from the field values of
  the object at the moment of the call, so a dump is the record value itself (a copy,
  not a reference to the object).
\<close>

datatype field_value = StrV string | NumV real | BoolV bool

datatype audit_metadata =
    DecisionCreatedMeta ModerationDecision ModerationInput
      \<comment> \<open>\<^verbatim>\<open>{"decision": decision.model_dump(..), "input": input_data.model_dump(..)}\<close>\<close>
  | ActionMeta ModerationAction string string string PolicyCategory real
      \<comment> \<open>action, participant_id, participant_identity, room_id, classification, confidence\<close>
  | ReviewMeta bool "string option" PolicyCategory ModerationAction
      \<comment> \<open>approved, notes, decision_classification, decision_action\<close>
  | OverturnMeta ModerationAction PolicyCategory real
      \<comment> \<open>original_action, original_classification, original_confidence\<close>
  | PolicyChangesMeta string string "(string \<times> field_value \<times> field_value) list"
      \<comment> \<open>policy_id, policy_name, changes: field \<mapsto> (old, new), in insertion order\<close>
  | PolicyToggleMeta string string bool bool
      \<comment> \<open>policy_id, policy_name, old_enabled, new_enabled\<close>

text \<open>
  The \<^verbatim>\<open>reason\<close> of an audit entry is an f-string. It is kept as its pieces, so that
  the \<^verbatim>\<open>:.2f\<close> rendering of a float stays symbolic (\<open>F2 x\<close>) instead of being computed.
\<close>

datatype piece = S string | F2 real

type_synonym fstring = "piece list"

record AuditLogEntry =
  a_audit_id :: string
  a_decision_id :: "string option"
  a_action_type :: AuditActionType
  a_actor :: AuditActor
  a_reason :: fstring
  a_timestamp :: nat
  a_metadata :: "audit_metadata option"

section \<open>Storage (app/core/storage.py)\<close>

text \<open>
  \<^verbatim>\<open>InMemoryStore._data\<close> is an insertion-ordered dict from keys to object references;
  \<^verbatim>\<open>get\<close> hands out the stored reference itself, so an attribute assignment through it
  changes what the store holds. The objects therefore live in a heap (addresses to
  values) and the dict is an association list from keys to addresses:
  \<^const>\<open>AList.update\<close> overwrites a present key in place and appends an absent one,
  as a Python dict does. \<^verbatim>\<open>AppendOnlyStore._data\<close> is a list; no modelled operation
  assigns to an entry after appending it, so it holds the entries as values.
\<close>

type_synonym ref = nat
type_synonym 'a heap = "ref \<Rightarrow> 'a"
type_synonym store = "(string \<times> ref) list"

definition store_get :: "store \<Rightarrow> string \<Rightarrow> ref option" where
  "store_get st key = map_of st key"

definition store_set :: "store \<Rightarrow> string \<Rightarrow> ref \<Rightarrow> store" where
  "store_set st key r = AList.update key r st"

definition store_get_all :: "'a heap \<Rightarrow> store \<Rightarrow> 'a list" where
  "store_get_all h st = map (\<lambda>kv. h (snd kv)) st"

text \<open>A newly constructed object gets an address no key of the store refers to.\<close>

definition new_ref :: "store \<Rightarrow> ref" where
  "new_ref st = Suc (foldr max (map snd st) 0)"

record app_state =
  policy_objs :: "Policy heap"
  decision_objs :: "ModerationDecision heap"
  policies_store :: store
  decisions_store :: store
  audit_store :: "AuditLogEntry list"

definition policies_get_all :: "app_state \<Rightarrow> Policy list" where
  "policies_get_all s = store_get_all (policy_objs s) (policies_store s)"

definition decisions_get_all :: "app_state \<Rightarrow> ModerationDecision list" where
  "decisions_get_all s = store_get_all (decision_objs s) (decisions_store s)"

definition decisions_get :: "app_state \<Rightarrow> string \<Rightarrow> ModerationDecision option" where
  "decisions_get s key = map_option (decision_objs s) (store_get (decisions_store s) key)"

definition policies_get :: "app_state \<Rightarrow> string \<Rightarrow> Policy option" where
  "policies_get s key = map_option (policy_objs s) (store_get (policies_store s) key)"

definition audit_append :: "app_state \<Rightarrow> AuditLogEntry \<Rightarrow> app_state" where
  "audit_append s e = s\<lparr>audit_store := audit_store s @ [e]\<rparr>"

text \<open>
  \<^verbatim>\<open>initialize_default_policies\<close>: the five seeded policies, stored under their ids. Each
  \<^verbatim>\<open>Policy(...)\<close> reads the clock twice, for \<^verbatim>\<open>created_at\<close> and \<^verbatim>\<open>updated_at\<close>; \<open>clock n\<close> is
  the \<open>n\<close>-th reading.
\<close>

definition mk_policy ::
  "string \<Rightarrow> string \<Rightarrow> PolicyCategory_p \<Rightarrow> string \<Rightarrow> real \<Rightarrow> real \<Rightarrow> real \<Rightarrow> nat \<Rightarrow> nat \<Rightarrow> Policy" where
  "mk_policy pid nm c descr w m f created updated =
     \<lparr>p_policy_id = pid, p_name = nm, p_category = c, p_description = descr,
      p_warn_threshold = w, p_mute_threshold = m, p_flag_threshold = f,
      p_enabled = True, p_created_at = created, p_updated_at = updated\<rparr>"

definition default_policies :: "(nat \<Rightarrow> nat) \<Rightarrow> Policy list" where
  "default_policies clock =
     [mk_policy ''policy-harassment'' ''Harassment'' P_HARASSMENT
        ''Content that harasses, intimidates, or bullies individuals'' (5/10) (7/10) (85/100)
        (clock 0) (clock 1),
      mk_policy ''policy-hate-speech'' ''Hate Speech'' P_HATE_SPEECH
        ''Content that promotes hatred against protected groups'' (4/10) (6/10) (75/100)
        (clock 2) (clock 3),
      mk_policy ''policy-spam'' ''Spam'' P_SPAM
        ''Repetitive, promotional, or unsolicited content'' (6/10) (8/10) (9/10)
        (clock 4) (clock 5),
      mk_policy ''policy-violence'' ''Violence'' P_VIOLENCE
        ''Content that promotes or glorifies violence'' (4/10) (6/10) (75/100)
        (clock 6) (clock 7),
      mk_policy ''policy-adult-content'' ''Adult Content'' P_ADULT_CONTENT
        ''Sexually explicit or mature content'' (5/10) (7/10) (85/100)
        (clock 8) (clock 9)]"

definition empty_state :: app_state where
  "empty_state =
     \<lparr>policy_objs = (\<lambda>_. mk_policy [] [] P_HARASSMENT [] 0 0 0 0 0),
      decision_objs = (\<lambda>_. \<lparr>d_decision_id = [], d_room_id = [], d_participant_id = [],
         d_participant_identity = [], d_content = [], d_content_type = TEXT,
         d_classification = CAT_NONE, d_confidence_score = 0, d_action = ACT_NONE,
         d_status = PENDING, d_policy_id = None, d_timestamp = 0, d_reasoning = None,
         d_metadata = None\<rparr>),
      policies_store = [], decisions_store = [], audit_store = []\<rparr>"

fun add_policy :: "app_state \<Rightarrow> Policy \<Rightarrow> app_state" where
  "add_policy s p =
     (let r = new_ref (policies_store s)
      in s\<lparr>policy_objs := (policy_objs s)(r := p),
           policies_store := store_set (policies_store s) (p_policy_id p) r\<rparr>)"

definition initialize_default_policies :: "app_state \<Rightarrow> (nat \<Rightarrow> nat) \<Rightarrow> app_state" where
  "initialize_default_policies s clock = foldl add_policy s (default_policies clock)"

section \<open>Decision engine (app/moderation/decider.py)\<close>

text \<open>
  \<^verbatim>\<open>_get_policy_for_category\<close> scans \<^verbatim>\<open>policies_store.get_all()\<close> and returns the first
  policy whose category value equals the value of the given category.
\<close>

definition get_policy_for_category :: "app_state \<Rightarrow> PolicyCategory \<Rightarrow> Policy option" where
  "get_policy_for_category s c =
     List.find (\<lambda>p. policy_category_value (p_category p) = category_value c) (policies_get_all s)"

text \<open>
  \<^verbatim>\<open>ActionDecider.decide\<close>. The second component of the result counts the reads of the
  policy registry (\<^verbatim>\<open>policies_store.get_all()\<close>) made on the way.
\<close>

definition decide ::
  "app_state \<Rightarrow> PolicyCategory \<Rightarrow> real \<Rightarrow> (ModerationAction \<times> string option) \<times> nat" where
  "decide s c confidence =
     (if c = CAT_NONE then ((ACT_NONE, None), 0)
      else
        (case get_policy_for_category s c of
           None \<Rightarrow> ((ACT_NONE, None), 1)
         | Some policy \<Rightarrow>
             if \<not> p_enabled policy then ((ACT_NONE, None), 1)
             else if confidence \<ge> p_flag_threshold policy
               then ((FLAG_FOR_REVIEW, Some (p_policy_id policy)), 1)
             else if confidence \<ge> p_mute_threshold policy
               then ((MUTE, Some (p_policy_id policy)), 1)
             else if confidence \<ge> p_warn_threshold policy
               then ((WARN, Some (p_policy_id policy)), 1)
             else ((ACT_NONE, Some (p_policy_id policy)), 1)))"

section \<open>Errors\<close>

text \<open>
  Every \<^verbatim>\<open>raise\<close> of the modelled code is a value: \<open>HTTPException code detail\<close> for the
  route handlers, \<open>ValidationError\<close> for a pydantic model rejecting its arguments or a
  query parameter, \<open>AttributeError\<close> and \<open>TypeError\<close> for the interpreter's own, and
  \<open>Raised msg\<close> for an exception coming out of an external capability, with \<open>msg\<close> its
  \<^verbatim>\<open>str(e)\<close>.
\<close>

datatype py_error =
    HTTPException nat string | ValidationError | AttributeError string | TypeError string
  | Raised string

definition NotFoundPolicy :: py_error where
  "NotFoundPolicy = HTTPException 404 ''Policy not found''"

definition NotFoundDecision :: py_error where
  "NotFoundDecision = HTTPException 404 ''Decision not found''"

definition InvalidThresholds :: py_error where
  "InvalidThresholds = HTTPException 400 ''Thresholds must be ordered: warn <= mute <= flag''"

definition AlreadyOverturned :: py_error where
  "AlreadyOverturned = HTTPException 400 ''Decision already overturned''"

text \<open>A pair of the identifier and the clock reading drawn when an object is built.\<close>

type_synonym stamp = "string \<times> nat"

section \<open>Classification (app/moderation/classifier.py)\<close>

text \<open>
  The reply of the LLM chain, after the JSON parser, is any JSON value. The code only
  asks whether it is a dict, looks two keys up, tests a value for truth, lower-cases it
  and renders it as text. A value is therefore a string, or something else given by its
  truth value, the name of its type and its \<^verbatim>\<open>str()\<close> text (\<^verbatim>\<open>null\<close> is
  \<open>POther False ''NoneType'' ''None''\<close>). A reply is a dict, as its entries, or something
  else, given by the text of \<^verbatim>\<open>type(result)\<close>.
\<close>

datatype py_value = PStr string | POther bool string string

fun truthy :: "py_value \<Rightarrow> bool" where
  "truthy (PStr s) = (s \<noteq> [])"
| "truthy (POther t ty txt) = t"

fun py_str :: "py_value \<Rightarrow> string" where
  "py_str (PStr s) = s"
| "py_str (POther t ty txt) = txt"

datatype llm_result = ResultDict "(string \<times> py_value) list" | ResultOther string

definition dict_get :: "(string \<times> py_value) list \<Rightarrow> string \<Rightarrow> py_value \<Rightarrow> py_value" where
  "dict_get kvs key dflt = (case map_of kvs key of None \<Rightarrow> dflt | Some v \<Rightarrow> v)"

text \<open>
  \<^verbatim>\<open>str.lower\<close>, on the ASCII letters. No other character lower-cases to a letter that
  occurs in a key of the category map, so the lookup below is not affected.
\<close>

definition lower_char :: "char \<Rightarrow> char" where
  "lower_char c =
     (case map_of (zip ''ABCDEFGHIJKLMNOPQRSTUVWXYZ'' ''abcdefghijklmnopqrstuvwxyz'') c of
        None \<Rightarrow> c | Some d \<Rightarrow> d)"

definition lower :: "string \<Rightarrow> string" where
  "lower cs = map lower_char cs"

text \<open>\<^verbatim>\<open>category_map.get(category_str, PolicyCategory.NONE)\<close>.\<close>

definition category_map :: "string \<Rightarrow> PolicyCategory" where
  "category_map c =
     (if c = ''harassment'' then HARASSMENT
      else if c = ''hate_speech'' then HATE_SPEECH
      else if c = ''spam'' then SPAM
      else if c = ''violence'' then VIOLENCE
      else if c = ''adult_content'' then ADULT_CONTENT
      else CAT_NONE)"

definition no_attribute :: "string \<Rightarrow> string \<Rightarrow> string" where
  "no_attribute ty attr =
     [CHR 0x27] @ ty @ [CHR 0x27] @ '' object has no attribute '' @ [CHR 0x27] @ attr @ [CHR 0x27]"

text \<open>
  \<^verbatim>\<open>ContentClassifier.classify\<close>. The chain is a parameter: on a content it raises (\<open>Inl\<close>
  of the exception's text) or yields the parsed reply. The whole body is one
  \<^verbatim>\<open>try\<close>/\<^verbatim>\<open>except Exception\<close>: a failure of the chain, and the \<^verbatim>\<open>AttributeError\<close> of
  \<^verbatim>\<open>.lower()\<close> on a truthy value that is not a string, both end in the \<^verbatim>\<open>except\<close> branch,
  which returns the category none with the text of the exception.
\<close>

definition classify ::
  "(string \<Rightarrow> string + llm_result) \<Rightarrow> string \<Rightarrow> PolicyCategory \<times> py_value" where
  "classify chain content =
     (case chain content of
        Inl e \<Rightarrow> (CAT_NONE, PStr (''Classification error: '' @ e))
      | Inr (ResultOther ty) \<Rightarrow>
          (CAT_NONE, PStr (''Unexpected response format from LLM: '' @ ty))
      | Inr (ResultDict result) \<Rightarrow>
          (let category_str = dict_get result ''category'' (PStr ''none'');
               reasoning = dict_get result ''reasoning'' (PStr [])
           in if truthy category_str then
                (case category_str of
                   PStr c \<Rightarrow> (category_map (lower c), reasoning)
                 | POther t ty txt \<Rightarrow>
                     (CAT_NONE, PStr (''Classification error: '' @ no_attribute ty ''lower'')))
              else (category_map ''none'', reasoning)))"

section \<open>Scoring (app/moderation/scorer.py)\<close>

text \<open>
  \<^verbatim>\<open>ConfidenceScorer.score\<close>. The LLM chain is a parameter: given content, category
  value and reasoning it either raises (\<open>Inl\<close>, also when the reply cannot be read as
  a number) or yields the reply's confidence and factors. The category may be
  \<^verbatim>\<open>None\<close> as far as Python is concerned; \<^verbatim>\<open>category.value\<close> then raises inside the
  \<^verbatim>\<open>try\<close>, before the chain is invoked. The second component of the result counts
  the invocations of the chain.
\<close>

definition none_has_no_value :: string where
  "none_has_no_value =
     [CHR 0x27] @ ''NoneType'' @ [CHR 0x27] @ '' object has no attribute ''
       @ [CHR 0x27] @ ''value'' @ [CHR 0x27]"

definition score ::
  "(string \<Rightarrow> string \<Rightarrow> string \<Rightarrow> string + real \<times> string) \<Rightarrow>
   string \<Rightarrow> PolicyCategory option \<Rightarrow> string \<Rightarrow> (real \<times> string) \<times> nat" where
  "score chain content category reasoning =
     (if category = Some CAT_NONE then ((0, ''No violation detected''), 0)
      else
        (case category of
           None \<Rightarrow> ((0, ''Scoring error: '' @ none_has_no_value), 0)
         | Some c \<Rightarrow>
             (case chain content (category_value c) reasoning of
                Inr (confidence, factors) \<Rightarrow> ((max 0 (min 1 confidence), factors), 1)
              | Inl e \<Rightarrow> ((0, ''Scoring error: '' @ e), 1))))"

section \<open>Action executor (app/moderation/actions.py)\<close>

definition create_audit_entry ::
  "app_state \<Rightarrow> string \<Rightarrow> AuditActionType \<Rightarrow> fstring \<Rightarrow> audit_metadata option \<Rightarrow> stamp \<Rightarrow>
   app_state" where
  "create_audit_entry s decision_id action_type reason md st =
     audit_append s
       \<lparr>a_audit_id = fst st, a_decision_id = Some decision_id, a_action_type = action_type,
        a_actor = AI, a_reason = reason, a_timestamp = snd st, a_metadata = md\<rparr>"

text \<open>
  \<^verbatim>\<open>action_type_map.get(decision.action, AuditActionType.ACTION_EXECUTED)\<close>: the dict has
  no key for \<^verbatim>\<open>NONE\<close>, which falls to the default.
\<close>

fun action_type_map :: "ModerationAction \<Rightarrow> AuditActionType" where
  "action_type_map WARN = PARTICIPANT_WARNED"
| "action_type_map MUTE = PARTICIPANT_MUTED"
| "action_type_map FLAG_FOR_REVIEW = CONTENT_FLAGGED"
| "action_type_map ACT_NONE = ACTION_EXECUTED"

text \<open>
  \<^verbatim>\<open>_execute_action\<close> receives the decision object itself (its address \<open>r\<close>): the status
  assignment writes to the object the store already holds, and the following
  \<^verbatim>\<open>decisions_store.set\<close> re-binds the key to the same object.
\<close>

definition execute_action :: "app_state \<Rightarrow> ref \<Rightarrow> stamp \<Rightarrow> app_state" where
  "execute_action s r st =
     (let audit_action_type = action_type_map (d_action (decision_objs s r));
          s1 = s\<lparr>decision_objs := (decision_objs s)(r := (decision_objs s r)\<lparr>d_status := EXECUTED\<rparr>)\<rparr>;
          decision = decision_objs s1 r;
          s2 = s1\<lparr>decisions_store := store_set (decisions_store s1) (d_decision_id decision) r\<rparr>
      in create_audit_entry s2 (d_decision_id decision) audit_action_type
           [S ''Action executed: '', S (action_value (d_action decision)),
            S '' on participant '', S (d_participant_identity decision)]
           (Some (ActionMeta (d_action decision) (d_participant_id decision)
              (d_participant_identity decision) (d_room_id decision)
              (d_classification decision) (d_confidence_score decision)))
           st)"

text \<open>
  \<^verbatim>\<open>ActionExecutor.execute\<close>. Building the \<^verbatim>\<open>ModerationDecision\<close> validates
  \<^verbatim>\<open>confidence_score\<close> against \<^verbatim>\<open>ge=0.0, le=1.0\<close> and raises before anything is stored.
  \<open>dst\<close> is the decision's generated id and timestamp, \<open>st1\<close> and \<open>st2\<close> those of the two
  audit entries. The result is the address of the decision object that Python returns.
\<close>

definition execute ::
  "app_state \<Rightarrow> ModerationInput \<Rightarrow> PolicyCategory \<Rightarrow> real \<Rightarrow> ModerationAction \<Rightarrow>
   string option \<Rightarrow> string \<Rightarrow> stamp \<Rightarrow> stamp \<Rightarrow> stamp \<Rightarrow> (py_error + ref) \<times> app_state" where
  "execute s input_data category confidence action policy_id reasoning dst st1 st2 =
     (if \<not> (0 \<le> confidence \<and> confidence \<le> 1) then (Inl ValidationError, s)
      else
        (let decision =
               \<lparr>d_decision_id = fst dst,
                d_room_id = i_room_id input_data,
                d_participant_id = i_participant_id input_data,
                d_participant_identity = i_participant_identity input_data,
                d_content = i_content input_data,
                d_content_type = i_content_type input_data,
                d_classification = category,
                d_confidence_score = confidence,
                d_action = action,
                d_status = PENDING,
                d_policy_id = policy_id,
                d_timestamp = snd dst,
                d_reasoning = Some reasoning,
                d_metadata = i_metadata input_data\<rparr>;
             r = new_ref (decisions_store s);
             s1 = s\<lparr>decision_objs := (decision_objs s)(r := decision),
                    decisions_store := store_set (decisions_store s) (d_decision_id decision) r\<rparr>;
             s2 = create_audit_entry s1 (d_decision_id (decision_objs s1 r)) DECISION_CREATED
                    [S ''Moderation decision created: '', S (category_value category),
                     S '' with confidence '', F2 confidence]
                    (Some (DecisionCreatedMeta (decision_objs s1 r) input_data))
                    st1;
             s3 = (if action \<noteq> ACT_NONE then execute_action s2 r st2 else s2)
         in (Inr r, s3)))"

section \<open>Pipeline (app/moderation/pipeline.py)\<close>

text \<open>
  \<^verbatim>\<open>ModerationState\<close>, a TypedDict whose slots start as \<^verbatim>\<open>None\<close>. The \<^verbatim>\<open>decision\<close> slot
  holds the decision object (its address); the \<^verbatim>\<open>error\<close> slot holds \<^verbatim>\<open>str(e)\<close>, for which
  the model keeps \<open>e\<close> itself.
\<close>

record ModerationState =
  st_input :: ModerationInput
  st_category :: "PolicyCategory option"
  st_classification_reasoning :: "py_value option"
  st_confidence :: "real option"
  st_scoring_factors :: "string option"
  st_action :: "ModerationAction option"
  st_policy_id :: "string option"
  st_decision :: "ref option"
  st_error :: "py_error option"

text \<open>
  \<^verbatim>\<open>classify_node\<close>. \<open>get_classifier\<close> is the outcome of the accessor \<^verbatim>\<open>get_classifier()\<close>,
  which is called before the \<^verbatim>\<open>try\<close>: it raises (the construction of the classifier
  failed) or returns the classifier, given by its chain. \<^const>\<open>classify\<close> returns on every
  path, so the node's own \<^verbatim>\<open>except\<close> branch, the only place that would write the error
  slot in this stage, is never taken.
\<close>

definition classify_node ::
  "(py_error + (string \<Rightarrow> string + llm_result)) \<Rightarrow> ModerationState \<Rightarrow> py_error + ModerationState" where
  "classify_node get_classifier st =
     (case get_classifier of
        Inl e \<Rightarrow> Inl e
      | Inr chain \<Rightarrow>
          (let (category, reasoning) = classify chain (i_content (st_input st))
           in Inr (st\<lparr>st_category := Some category,
                      st_classification_reasoning := Some reasoning\<rparr>)))"

text \<open>
  \<^verbatim>\<open>score_node\<close>. \<open>get_scorer\<close> is the outcome of \<^verbatim>\<open>get_scorer()\<close>, called before the \<^verbatim>\<open>try\<close>
  like the classifier's accessor. \<^const>\<open>score\<close> handles every exception itself, so the
  node's own \<^verbatim>\<open>except\<close> branch is never taken. \<^verbatim>\<open>reasoning or ""\<close> replaces \<^verbatim>\<open>None\<close> and every
  falsy value by the empty string; the scorer only renders the reasoning into its prompt,
  so it is handed the text of the value.
\<close>

definition score_node ::
  "(py_error + (string \<Rightarrow> string \<Rightarrow> string \<Rightarrow> string + real \<times> string)) \<Rightarrow> ModerationState \<Rightarrow>
   py_error + ModerationState" where
  "score_node get_scorer st =
     (case get_scorer of
        Inl e \<Rightarrow> Inl e
      | Inr chain \<Rightarrow>
          (let (confidence, factors) =
                 fst (score chain (i_content (st_input st)) (st_category st)
                        (py_str (case st_classification_reasoning st of
                                   None \<Rightarrow> PStr []
                                 | Some r \<Rightarrow> if truthy r then r else PStr [])))
           in Inr (st\<lparr>st_confidence := Some confidence, st_scoring_factors := Some factors\<rparr>)))"

definition ge_not_supported :: string where
  "ge_not_supported =
     [CHR 0x27] @ ''>='' @ [CHR 0x27] @ '' not supported between instances of ''
       @ [CHR 0x27] @ ''NoneType'' @ [CHR 0x27] @ '' and '' @ [CHR 0x27] @ ''float'' @ [CHR 0x27]"

text \<open>
  \<^verbatim>\<open>decide_node\<close>. With both slots filled it calls \<^const>\<open>decide\<close>. A \<^verbatim>\<open>None\<close> category
  makes the registry scan raise at its first policy (\<^verbatim>\<open>category.value\<close>), a \<^verbatim>\<open>None\<close>
  confidence makes the first threshold comparison raise; either is caught here.
\<close>

definition decide_node :: "app_state \<Rightarrow> ModerationState \<Rightarrow> ModerationState" where
  "decide_node s st =
     (case st_category st of
        None \<Rightarrow>
          (if policies_get_all s = [] then st\<lparr>st_action := Some ACT_NONE, st_policy_id := None\<rparr>
           else st\<lparr>st_action := Some ACT_NONE, st_policy_id := None,
                   st_error := Some (AttributeError none_has_no_value)\<rparr>)
      | Some c \<Rightarrow>
          (case st_confidence st of
             Some confidence \<Rightarrow>
               (let (action, policy_id) = fst (decide s c confidence)
                in st\<lparr>st_action := Some action, st_policy_id := policy_id\<rparr>)
           | None \<Rightarrow>
               (if c = CAT_NONE \<or>
                   (case get_policy_for_category s c of None \<Rightarrow> True | Some p \<Rightarrow> \<not> p_enabled p)
                then st\<lparr>st_action := Some ACT_NONE, st_policy_id := None\<rparr>
                else st\<lparr>st_action := Some ACT_NONE, st_policy_id := None,
                        st_error := Some (TypeError ge_not_supported)\<rparr>)))"

fun join :: "string \<Rightarrow> string list \<Rightarrow> string" where
  "join sep [] = []"
| "join sep [x] = x"
| "join sep (x # y # ys) = x @ sep @ join sep (y # ys)"

text \<open>
  \<^verbatim>\<open>action_node\<close>. A rationale joins the reasoning only when it is truthy (for a string:
  neither \<^verbatim>\<open>None\<close> nor empty); the f-string renders it as text. A \<^verbatim>\<open>None\<close> category, confidence or action is rejected by the construction of the
  \<^verbatim>\<open>ModerationDecision\<close> inside \<^const>\<open>execute\<close>, before any write.
\<close>

definition action_node ::
  "app_state \<Rightarrow> ModerationState \<Rightarrow> stamp \<Rightarrow> stamp \<Rightarrow> stamp \<Rightarrow> ModerationState \<times> app_state" where
  "action_node s st dst st1 st2 =
     (let reasoning_parts =
            (case st_classification_reasoning st of
               None \<Rightarrow> []
             | Some r \<Rightarrow> if truthy r then [''Classification: '' @ py_str r] else [])
            @ (case st_scoring_factors st of
                 None \<Rightarrow> [] | Some f \<Rightarrow> if f = [] then [] else [''Scoring: '' @ f]);
          full_reasoning = join '' | '' reasoning_parts
      in (case (st_category st, st_confidence st, st_action st) of
            (Some category, Some confidence, Some action) \<Rightarrow>
              (case execute s (st_input st) category confidence action (st_policy_id st)
                      full_reasoning dst st1 st2 of
                 (Inr decision, s') \<Rightarrow> (st\<lparr>st_decision := Some decision\<rparr>, s')
               | (Inl e, s') \<Rightarrow> (st\<lparr>st_error := Some e\<rparr>, s'))
          | _ \<Rightarrow> (st\<lparr>st_error := Some ValidationError\<rparr>, s)))"

definition initial_state :: "ModerationInput \<Rightarrow> ModerationState" where
  "initial_state input_data =
     \<lparr>st_input = input_data, st_category = None, st_classification_reasoning = None,
      st_confidence = None, st_scoring_factors = None, st_action = None, st_policy_id = None,
      st_decision = None, st_error = None\<rparr>"

text \<open>
  The compiled graph: classify, score, decide, action, in this order. An exception that
  leaves a node leaves \<^verbatim>\<open>pipeline.ainvoke\<close> and \<^verbatim>\<open>moderate_content\<close>; no store has been written
  by then.
\<close>

definition pipeline_invoke ::
  "(py_error + (string \<Rightarrow> string + llm_result)) \<Rightarrow>
   (py_error + (string \<Rightarrow> string \<Rightarrow> string \<Rightarrow> string + real \<times> string)) \<Rightarrow>
   app_state \<Rightarrow> ModerationState \<Rightarrow> stamp \<Rightarrow> stamp \<Rightarrow> stamp \<Rightarrow>
   (py_error + ModerationState) \<times> app_state" where
  "pipeline_invoke get_classifier get_scorer s st dst st1 st2 =
     (case classify_node get_classifier st of
        Inl e \<Rightarrow> (Inl e, s)
      | Inr sa \<Rightarrow>
          (case score_node get_scorer sa of
             Inl e \<Rightarrow> (Inl e, s)
           | Inr sb \<Rightarrow>
               (let (result, s') = action_node s (decide_node s sb) dst st1 st2
                in (Inr result, s'))))"

definition moderate_content ::
  "(py_error + (string \<Rightarrow> string + llm_result)) \<Rightarrow>
   (py_error + (string \<Rightarrow> string \<Rightarrow> string \<Rightarrow> string + real \<times> string)) \<Rightarrow>
   app_state \<Rightarrow> ModerationInput \<Rightarrow> stamp \<Rightarrow> stamp \<Rightarrow> stamp \<Rightarrow>
   (py_error + ref option) \<times> app_state" where
  "moderate_content get_classifier get_scorer s input_data dst st1 st2 =
     (case pipeline_invoke get_classifier get_scorer s (initial_state input_data) dst st1 st2 of
        (Inl e, s') \<Rightarrow> (Inl e, s')
      | (Inr result, s') \<Rightarrow> (Inr (st_decision result), s'))"

section \<open>Decision routes (app/api/routes/moderation.py)\<close>

text \<open>
  The broadcasts to websocket observers are outside the model: \<^verbatim>\<open>ConnectionManager.broadcast\<close>
  catches the failures of its sends and touches none of the stores. A handler returns its
  response, or the exception it raised, together with the state it leaves behind.
\<close>

definition review_decision ::
  "app_state \<Rightarrow> string \<Rightarrow> bool \<Rightarrow> string option \<Rightarrow> stamp \<Rightarrow>
   (py_error + string \<times> ModerationStatus) \<times> app_state" where
  "review_decision s decision_id approved notes st =
     (case store_get (decisions_store s) decision_id of
        None \<Rightarrow> (Inl NotFoundDecision, s)
      | Some r \<Rightarrow>
          (let s1 = s\<lparr>decision_objs := (decision_objs s)(r := (decision_objs s r)\<lparr>d_status := REVIEWED\<rparr>)\<rparr>;
               s2 = s1\<lparr>decisions_store := store_set (decisions_store s1) decision_id r\<rparr>;
               decision = decision_objs s2 r;
               s3 = audit_append s2
                      \<lparr>a_audit_id = fst st, a_decision_id = Some decision_id,
                       a_action_type = DECISION_REVIEWED, a_actor = ADMIN,
                       a_reason = [S ''Decision reviewed: '',
                                   S (if approved then ''approved'' else ''rejected''),
                                   S ''. '', S (case notes of None \<Rightarrow> [] | Some n \<Rightarrow> n)],
                       a_timestamp = snd st,
                       a_metadata = Some (ReviewMeta approved notes
                                            (d_classification decision) (d_action decision))\<rparr>
           in (Inr (decision_id, d_status (decision_objs s3 r)), s3)))"

definition overturn_decision ::
  "app_state \<Rightarrow> string \<Rightarrow> string \<Rightarrow> stamp \<Rightarrow> (py_error + string \<times> ModerationStatus) \<times> app_state" where
  "overturn_decision s decision_id reason st =
     (case store_get (decisions_store s) decision_id of
        None \<Rightarrow> (Inl NotFoundDecision, s)
      | Some r \<Rightarrow>
          (if d_status (decision_objs s r) = OVERTURNED then (Inl AlreadyOverturned, s)
           else
             (let old_action = d_action (decision_objs s r);
                  s1 = s\<lparr>decision_objs :=
                          (decision_objs s)(r := (decision_objs s r)\<lparr>d_status := OVERTURNED\<rparr>)\<rparr>;
                  s2 = s1\<lparr>decisions_store := store_set (decisions_store s1) decision_id r\<rparr>;
                  decision = decision_objs s2 r;
                  s3 = audit_append s2
                         \<lparr>a_audit_id = fst st, a_decision_id = Some decision_id,
                          a_action_type = DECISION_OVERTURNED, a_actor = ADMIN,
                          a_reason = [S reason], a_timestamp = snd st,
                          a_metadata = Some (OverturnMeta old_action (d_classification decision)
                                               (d_confidence_score decision))\<rparr>
              in (Inr (decision_id, d_status (decision_objs s3 r)), s3))))"

section \<open>Policy routes (app/api/routes/policies.py)\<close>

text \<open>
  The request body is parsed into a \<^verbatim>\<open>PolicyUpdate\<close> before the handler runs; a threshold
  outside \<open>[0, 1]\<close> is rejected there.
\<close>

definition valid_threshold :: "real option \<Rightarrow> bool" where
  "valid_threshold t = (case t of None \<Rightarrow> True | Some x \<Rightarrow> 0 \<le> x \<and> x \<le> 1)"

definition valid_update :: "PolicyUpdate \<Rightarrow> bool" where
  "valid_update u \<longleftrightarrow>
     valid_threshold (u_warn_threshold u) \<and> valid_threshold (u_mute_threshold u) \<and>
     valid_threshold (u_flag_threshold u)"

text \<open>
  The six \<^verbatim>\<open>if update.f is not None\<close> blocks of \<^verbatim>\<open>update_policy\<close>, in order: each records
  the old and the new value under the field's name and assigns the field. The result is
  the \<^verbatim>\<open>changes\<close> dict, in insertion order, and the policy object's new contents.
\<close>

type_synonym changes = "(string \<times> field_value \<times> field_value) list"

definition apply_updates :: "Policy \<Rightarrow> PolicyUpdate \<Rightarrow> changes \<times> Policy" where
  "apply_updates p0 u =
     (let (c1, p1) = (case u_name u of None \<Rightarrow> ([], p0)
            | Some v \<Rightarrow> ([(''name'', StrV (p_name p0), StrV v)], p0\<lparr>p_name := v\<rparr>));
          (c2, p2) = (case u_description u of None \<Rightarrow> (c1, p1)
            | Some v \<Rightarrow> (c1 @ [(''description'', StrV (p_description p1), StrV v)],
                          p1\<lparr>p_description := v\<rparr>));
          (c3, p3) = (case u_warn_threshold u of None \<Rightarrow> (c2, p2)
            | Some v \<Rightarrow> (c2 @ [(''warn_threshold'', NumV (p_warn_threshold p2), NumV v)],
                          p2\<lparr>p_warn_threshold := v\<rparr>));
          (c4, p4) = (case u_mute_threshold u of None \<Rightarrow> (c3, p3)
            | Some v \<Rightarrow> (c3 @ [(''mute_threshold'', NumV (p_mute_threshold p3), NumV v)],
                          p3\<lparr>p_mute_threshold := v\<rparr>));
          (c5, p5) = (case u_flag_threshold u of None \<Rightarrow> (c4, p4)
            | Some v \<Rightarrow> (c4 @ [(''flag_threshold'', NumV (p_flag_threshold p4), NumV v)],
                          p4\<lparr>p_flag_threshold := v\<rparr>));
          (c6, p6) = (case u_enabled u of None \<Rightarrow> (c5, p5)
            | Some v \<Rightarrow> (c5 @ [(''enabled'', BoolV (p_enabled p5), BoolV v)],
                          p5\<lparr>p_enabled := v\<rparr>))
      in (c6, p6))"

text \<open>
  \<^verbatim>\<open>update_policy\<close>. \<^verbatim>\<open>policies_store.get\<close> returns the stored object, so the field
  assignments are writes to the heap at its address \<open>r\<close> (state \<open>s1\<close>); the ordering check
  comes after them and the \<^verbatim>\<open>HTTPException\<close> it raises leaves \<open>s1\<close> behind. \<open>now\<close> is
  the clock reading for \<^verbatim>\<open>updated_at\<close>, \<open>st\<close> the id and timestamp of the audit entry.
\<close>

definition update_policy ::
  "app_state \<Rightarrow> string \<Rightarrow> PolicyUpdate \<Rightarrow> nat \<Rightarrow> stamp \<Rightarrow> (py_error + Policy) \<times> app_state" where
  "update_policy s policy_id u now st =
     (if \<not> valid_update u then (Inl ValidationError, s)
      else
        (case store_get (policies_store s) policy_id of
           None \<Rightarrow> (Inl NotFoundPolicy, s)
         | Some r \<Rightarrow>
             (let (changes, p') = apply_updates (policy_objs s r) u;
                  s1 = s\<lparr>policy_objs := (policy_objs s)(r := p')\<rparr>;
                  policy = policy_objs s1 r
              in if \<not> (p_warn_threshold policy \<le> p_mute_threshold policy \<and>
                        p_mute_threshold policy \<le> p_flag_threshold policy)
                 then (Inl InvalidThresholds, s1)
                 else
                   (let s2 = s1\<lparr>policy_objs := (policy_objs s1)(r := policy\<lparr>p_updated_at := now\<rparr>)\<rparr>;
                        s3 = s2\<lparr>policies_store := store_set (policies_store s2) policy_id r\<rparr>;
                        policy' = policy_objs s3 r;
                        s4 = (if changes \<noteq> [] then
                                audit_append s3
                                  \<lparr>a_audit_id = fst st, a_decision_id = None,
                                   a_action_type = POLICY_UPDATED, a_actor = ADMIN,
                                   a_reason = [S ''Policy '', S [CHR 0x27], S (p_name policy'),
                                               S [CHR 0x27], S '' updated''],
                                   a_timestamp = snd st,
                                   a_metadata = Some (PolicyChangesMeta policy_id
                                                        (p_name policy') changes)\<rparr>
                              else s3)
                    in (Inr (policy_objs s4 r), s4)))))"

text \<open>\<^verbatim>\<open>toggle_policy\<close>; the response carries the policy id and the new \<^verbatim>\<open>enabled\<close>.\<close>

definition toggle_policy ::
  "app_state \<Rightarrow> string \<Rightarrow> nat \<Rightarrow> stamp \<Rightarrow> (py_error + string \<times> bool) \<times> app_state" where
  "toggle_policy s policy_id now st =
     (case store_get (policies_store s) policy_id of
        None \<Rightarrow> (Inl NotFoundPolicy, s)
      | Some r \<Rightarrow>
          (let old_enabled = p_enabled (policy_objs s r);
               s1 = s\<lparr>policy_objs :=
                       (policy_objs s)(r := (policy_objs s r)\<lparr>p_enabled := \<not> old_enabled\<rparr>)\<rparr>;
               s2 = s1\<lparr>policy_objs := (policy_objs s1)(r := (policy_objs s1 r)\<lparr>p_updated_at := now\<rparr>)\<rparr>;
               s3 = s2\<lparr>policies_store := store_set (policies_store s2) policy_id r\<rparr>;
               policy = policy_objs s3 r;
               s4 = audit_append s3
                      \<lparr>a_audit_id = fst st, a_decision_id = None,
                       a_action_type = POLICY_UPDATED, a_actor = ADMIN,
                       a_reason = [S ''Policy '', S [CHR 0x27], S (p_name policy), S [CHR 0x27],
                                   S '' '', S (if p_enabled policy then ''enabled'' else ''disabled'')],
                       a_timestamp = snd st,
                       a_metadata = Some (PolicyToggleMeta policy_id (p_name policy)
                                            old_enabled (p_enabled policy))\<rparr>
           in (Inr (policy_id, p_enabled (policy_objs s4 r)), s4)))"

section \<open>Listing and export (app/api/routes/audit.py, moderation.py)\<close>

text \<open>
  A Python slice \<^verbatim>\<open>xs[a:b]\<close> on integers of either sign: a negative bound counts from the
  end, and both are clamped to the list.
\<close>

definition py_slice :: "'a list \<Rightarrow> int \<Rightarrow> int \<Rightarrow> 'a list" where
  "py_slice xs a b =
     (let n = int (length xs);
          lo = (if a < 0 then max 0 (a + n) else min a n);
          hi = (if b < 0 then max 0 (b + n) else min b n)
      in take (nat (hi - lo)) (drop (nat lo) xs))"

text \<open>
  \<^verbatim>\<open>xs.sort(key=k, reverse=True)\<close>: descending and stable, that is, the ascending stable
  sort of the reversed list, reversed.
\<close>

definition sort_desc :: "('a \<Rightarrow> nat) \<Rightarrow> 'a list \<Rightarrow> 'a list" where
  "sort_desc k xs = rev (sort_key k (rev xs))"

text \<open>
  A \<^verbatim>\<open>datetime\<close> query parameter is naive or carries an offset. The stored timestamps come
  from \<^verbatim>\<open>datetime.utcnow()\<close> and are naive; comparing one with an aware bound raises, which
  happens as soon as the list comprehension meets an entry. Every \<^verbatim>\<open>datetime\<close> is truthy.
\<close>

datatype query_time = Naive nat | Aware nat

definition naive_vs_aware :: string where
  "naive_vs_aware = ''can'' @ [CHR 0x27] @ ''t compare offset-naive and offset-aware datetimes''"

definition filter_time ::
  "(nat \<Rightarrow> nat \<Rightarrow> bool) \<Rightarrow> query_time option \<Rightarrow> AuditLogEntry list \<Rightarrow> py_error + AuditLogEntry list" where
  "filter_time cmp q entries =
     (case q of
        None \<Rightarrow> Inr entries
      | Some (Naive t) \<Rightarrow> Inr (filter (\<lambda>e. cmp (a_timestamp e) t) entries)
      | Some (Aware t) \<Rightarrow> if entries = [] then Inr [] else Inl (TypeError naive_vs_aware))"

text \<open>
  The filter block shared by \<^verbatim>\<open>list_audit_logs\<close> and \<^verbatim>\<open>export_audit_logs\<close>. \<^verbatim>\<open>if decision_id:\<close>
  holds for a string that is neither \<^verbatim>\<open>None\<close> nor empty; the members of the two enums
  are non-empty strings, hence truthy.
\<close>

definition audit_filters ::
  "AuditLogEntry list \<Rightarrow> string option \<Rightarrow> AuditActionType option \<Rightarrow> AuditActor option \<Rightarrow>
   query_time option \<Rightarrow> query_time option \<Rightarrow> py_error + AuditLogEntry list" where
  "audit_filters entries0 decision_id action_type actor start_time end_time =
     (let entries1 = (case decision_id of
                        None \<Rightarrow> entries0
                      | Some d \<Rightarrow> if d = [] then entries0
                                  else filter (\<lambda>e. a_decision_id e = Some d) entries0);
          entries2 = (case action_type of
                        None \<Rightarrow> entries1
                      | Some t \<Rightarrow> filter (\<lambda>e. a_action_type e = t) entries1);
          entries3 = (case actor of
                        None \<Rightarrow> entries2
                      | Some a \<Rightarrow> filter (\<lambda>e. a_actor e = a) entries2)
      in (case filter_time (\<lambda>ts t. ts \<ge> t) start_time entries3 of
            Inl e \<Rightarrow> Inl e
          | Inr entries4 \<Rightarrow> filter_time (\<lambda>ts t. ts \<le> t) end_time entries4))"

definition list_audit_logs ::
  "app_state \<Rightarrow> string option \<Rightarrow> AuditActionType option \<Rightarrow> AuditActor option \<Rightarrow>
   query_time option \<Rightarrow> query_time option \<Rightarrow> int \<Rightarrow> int \<Rightarrow> py_error + AuditLogEntry list" where
  "list_audit_logs s decision_id action_type actor start_time end_time limit offset =
     (case audit_filters (audit_store s) decision_id action_type actor start_time end_time of
        Inl e \<Rightarrow> Inl e
      | Inr entries \<Rightarrow> Inr (py_slice (sort_desc a_timestamp entries) offset (offset + limit)))"

text \<open>
  \<^verbatim>\<open>export_audit_logs\<close>. The \<^verbatim>\<open>format\<close> parameter must match \<^verbatim>\<open>^(json|csv)$\<close>. The CSV
  answer is kept as the rows handed to the writer (header first), with the ISO rendering
  of a timestamp symbolic.
\<close>

datatype cell = CStr string | CText fstring | CTime nat

datatype export_response =
    JsonExport nat "AuditLogEntry list"
  | CsvExport nat "cell list list"

definition export_audit_logs ::
  "app_state \<Rightarrow> string \<Rightarrow> string option \<Rightarrow> AuditActionType option \<Rightarrow> AuditActor option \<Rightarrow>
   query_time option \<Rightarrow> query_time option \<Rightarrow> py_error + export_response" where
  "export_audit_logs s format decision_id action_type actor start_time end_time =
     (if format \<noteq> ''json'' \<and> format \<noteq> ''csv'' then Inl ValidationError
      else
        (case audit_filters (audit_store s) decision_id action_type actor start_time end_time of
           Inl e \<Rightarrow> Inl e
         | Inr filtered \<Rightarrow>
             (let entries = sort_desc a_timestamp filtered
              in if format = ''json'' then Inr (JsonExport (length entries) entries)
                 else Inr (CsvExport (length entries)
                   ([CStr ''audit_id'', CStr ''decision_id'', CStr ''action_type'', CStr ''actor'',
                     CStr ''reason'', CStr ''timestamp'']
                    # map (\<lambda>e. [CStr (a_audit_id e),
                                 CStr (case a_decision_id e of None \<Rightarrow> [] | Some d \<Rightarrow> d),
                                 CStr (audit_action_type_value (a_action_type e)),
                                 CStr (audit_actor_value (a_actor e)),
                                 CText (a_reason e), CTime (a_timestamp e)]) entries)))))"

text \<open>
  \<^verbatim>\<open>list_decisions\<close>. The confidence bounds are validated against \<open>[0, 1]\<close> before the
  handler runs. The response lists the decisions' field values.
\<close>

definition list_decisions ::
  "app_state \<Rightarrow> string option \<Rightarrow> string option \<Rightarrow> PolicyCategory option \<Rightarrow>
   ModerationAction option \<Rightarrow> ModerationStatus option \<Rightarrow> real option \<Rightarrow> real option \<Rightarrow>
   int \<Rightarrow> int \<Rightarrow> py_error + ModerationDecision list" where
  "list_decisions s room_id participant_id classification action status
                  min_confidence max_confidence limit offset =
     (if \<not> (valid_threshold min_confidence \<and> valid_threshold max_confidence)
      then Inl ValidationError
      else
        (let ds0 = decisions_get_all s;
             ds1 = (case room_id of None \<Rightarrow> ds0
                    | Some x \<Rightarrow> if x = [] then ds0 else filter (\<lambda>d. d_room_id d = x) ds0);
             ds2 = (case participant_id of None \<Rightarrow> ds1
                    | Some x \<Rightarrow> if x = [] then ds1 else filter (\<lambda>d. d_participant_id d = x) ds1);
             ds3 = (case classification of None \<Rightarrow> ds2
                    | Some x \<Rightarrow> filter (\<lambda>d. d_classification d = x) ds2);
             ds4 = (case action of None \<Rightarrow> ds3 | Some x \<Rightarrow> filter (\<lambda>d. d_action d = x) ds3);
             ds5 = (case status of None \<Rightarrow> ds4 | Some x \<Rightarrow> filter (\<lambda>d. d_status d = x) ds4);
             ds6 = (case min_confidence of None \<Rightarrow> ds5
                    | Some x \<Rightarrow> filter (\<lambda>d. d_confidence_score d \<ge> x) ds5);
             ds7 = (case max_confidence of None \<Rightarrow> ds6
                    | Some x \<Rightarrow> filter (\<lambda>d. d_confidence_score d \<le> x) ds6)
         in Inr (py_slice (sort_desc d_timestamp ds7) offset (offset + limit))))"

section \<open>Notions used by the statements\<close>

text \<open>The member of the six-member enum that a policy's category stands for.\<close>

fun category_of :: "PolicyCategory_p \<Rightarrow> PolicyCategory" where
  "category_of P_HARASSMENT = HARASSMENT"
| "category_of P_HATE_SPEECH = HATE_SPEECH"
| "category_of P_SPAM = SPAM"
| "category_of P_VIOLENCE = VIOLENCE"
| "category_of P_ADULT_CONTENT = ADULT_CONTENT"

text \<open>
  The state right after start-up, with the clock standing at 0: the seeded registry, no
  decisions, no audit entries.
\<close>

definition start_clock :: "nat \<Rightarrow> nat" where
  "start_clock n = 0"

definition seeded :: app_state where
  "seeded = initialize_default_policies empty_state start_clock"

text \<open>The audit entries that the step from \<open>s\<close> to \<open>s'\<close> added to the ledger.\<close>

definition appended :: "app_state \<Rightarrow> app_state \<Rightarrow> AuditLogEntry list" where
  "appended s s' = drop (length (audit_store s)) (audit_store s')"

text \<open>
  The core operations as data, and their effect on the application state. \<open>Moderate\<close> is a
  pipeline run with the outcomes of its two accessors, \<open>Execute\<close> a direct call of the Act
  stage.
\<close>

datatype operation =
    Moderate "py_error + (string \<Rightarrow> string + llm_result)"
             "py_error + (string \<Rightarrow> string \<Rightarrow> string \<Rightarrow> string + real \<times> string)"
             ModerationInput stamp stamp stamp
  | Execute ModerationInput PolicyCategory real ModerationAction "string option" string
            stamp stamp stamp
  | Review string bool "string option" stamp
  | Overturn string string stamp
  | UpdatePolicy string PolicyUpdate nat stamp
  | TogglePolicy string nat stamp

fun step :: "app_state \<Rightarrow> operation \<Rightarrow> app_state" where
  "step s (Moderate get_classifier get_scorer input_data dst st1 st2) =
     snd (moderate_content get_classifier get_scorer s input_data dst st1 st2)"
| "step s (Execute input_data category confidence action policy_id reasoning dst st1 st2) =
     snd (execute s input_data category confidence action policy_id reasoning dst st1 st2)"
| "step s (Review decision_id approved notes st) =
     snd (review_decision s decision_id approved notes st)"
| "step s (Overturn decision_id reason st) = snd (overturn_decision s decision_id reason st)"
| "step s (UpdatePolicy policy_id u now st) = snd (update_policy s policy_id u now st)"
| "step s (TogglePolicy policy_id now st) = snd (toggle_policy s policy_id now st)"

definition run :: "app_state \<Rightarrow> operation list \<Rightarrow> app_state" where
  "run s ops = foldl step s ops"

text \<open>
  The stage of a status in the order pending, executed, then reviewed and overturned
  together.
\<close>

fun status_rank :: "ModerationStatus \<Rightarrow> nat" where
  "status_rank PENDING = 0"
| "status_rank EXECUTED = 1"
| "status_rank REVIEWED = 2"
| "status_rank OVERTURNED = 2"

text \<open>An operation creates a decision under the id \<open>k\<close> when that is the id it generates.\<close>

fun creates :: "string \<Rightarrow> operation \<Rightarrow> bool" where
  "creates k (Moderate cl ch i dst st1 st2) = (fst dst = k)"
| "creates k (Execute i c x a p rs dst st1 st2) = (fst dst = k)"
| "creates k (Review k' ap n st) = False"
| "creates k (Overturn k' rs st) = False"
| "creates k (UpdatePolicy k' u now st) = False"
| "creates k (TogglePolicy k' now st) = False"

text \<open>The number of \<^verbatim>\<open>decision_overturned\<close> entries of a ledger that reference the id \<open>k\<close>.\<close>

definition count_overturned :: "AuditLogEntry list \<Rightarrow> string \<Rightarrow> nat" where
  "count_overturned es k =
     length (filter (\<lambda>e. a_action_type e = DECISION_OVERTURNED \<and> a_decision_id e = Some k) es)"

text \<open>Concrete inputs and states for the examples.\<close>

definition demo_input :: ModerationInput where
  "demo_input = \<lparr>i_room_id = ''room-1'', i_participant_id = ''p-1'',
     i_participant_identity = ''alice'', i_content = ''hello'', i_content_type = TEXT,
     i_metadata = None\<rparr>"

definition failing_chain :: "string \<Rightarrow> string \<Rightarrow> string \<Rightarrow> string + real \<times> string" where
  "failing_chain content category reasoning = Inl ''timeout''"

definition demo_flagged :: app_state where
  "demo_flagged = snd (execute seeded demo_input HARASSMENT (9/10) FLAG_FOR_REVIEW
      (Some ''policy-harassment'') ''rude'' (''dec-1'', 1) (''audit-1'', 2) (''audit-2'', 3))"

definition demo_overturned :: app_state where
  "demo_overturned = snd (overturn_decision demo_flagged ''dec-1'' ''mistake'' (''audit-3'', 4))"

text \<open>
  The \<^verbatim>\<open>changes\<close> map in the words of the specification: one entry per field that the
  update supplies, with the value the stored policy had before the call and the supplied
  value.
\<close>

definition supplied_changes :: "Policy \<Rightarrow> PolicyUpdate \<Rightarrow> changes" where
  "supplied_changes p u =
     (case u_name u of None \<Rightarrow> [] | Some v \<Rightarrow> [(''name'', StrV (p_name p), StrV v)])
     @ (case u_description u of None \<Rightarrow> []
        | Some v \<Rightarrow> [(''description'', StrV (p_description p), StrV v)])
     @ (case u_warn_threshold u of None \<Rightarrow> []
        | Some v \<Rightarrow> [(''warn_threshold'', NumV (p_warn_threshold p), NumV v)])
     @ (case u_mute_threshold u of None \<Rightarrow> []
        | Some v \<Rightarrow> [(''mute_threshold'', NumV (p_mute_threshold p), NumV v)])
     @ (case u_flag_threshold u of None \<Rightarrow> []
        | Some v \<Rightarrow> [(''flag_threshold'', NumV (p_flag_threshold p), NumV v)])
     @ (case u_enabled u of None \<Rightarrow> [] | Some v \<Rightarrow> [(''enabled'', BoolV (p_enabled p), BoolV v)])"

definition supplies_nothing :: "PolicyUpdate \<Rightarrow> bool" where
  "supplies_nothing u \<longleftrightarrow>
     u_name u = None \<and> u_description u = None \<and> u_warn_threshold u = None \<and>
     u_mute_threshold u = None \<and> u_flag_threshold u = None \<and> u_enabled u = None"

text \<open>What an audit entry records, apart from its generated id, its text and its time.\<close>

definition audit_summary ::
  "AuditLogEntry \<Rightarrow> AuditActionType \<times> AuditActor \<times> string option \<times> audit_metadata option" where
  "audit_summary e = (a_action_type e, a_actor e, a_decision_id e, a_metadata e)"

definition thresholds :: "Policy \<Rightarrow> real \<times> real \<times> real" where
  "thresholds p = (p_warn_threshold p, p_mute_threshold p, p_flag_threshold p)"


definition demo_reviewed :: app_state where
  "demo_reviewed = snd (review_decision demo_overturned ''dec-1'' True None (''audit-4'', 5))"

definition demo_overturned_again :: app_state where
  "demo_overturned_again = snd (overturn_decision demo_reviewed ''dec-1'' ''again'' (''audit-5'', 6))"

definition no_update :: PolicyUpdate where
  "no_update = \<lparr>u_name = None, u_description = None, u_warn_threshold = None,
     u_mute_threshold = None, u_flag_threshold = None, u_enabled = None\<rparr>"

definition bad_update :: PolicyUpdate where
  "bad_update = no_update\<lparr>u_warn_threshold := Some (9/10), u_mute_threshold := Some (5/10)\<rparr>"

definition same_name_update :: PolicyUpdate where
  "same_name_update = no_update\<lparr>u_name := Some ''Harassment''\<rparr>"

definition lower_warn :: PolicyUpdate where
  "lower_warn = no_update\<lparr>u_warn_threshold := Some (45/100)\<rparr>"

definition demo_rejected :: app_state where
  "demo_rejected = snd (update_policy seeded ''policy-harassment'' bad_update 7 (''audit-1'', 8))"

section \<open>The decision engine\<close>

lemmas seeded_simps = seeded_def start_clock_def initialize_default_policies_def
  default_policies_def empty_state_def new_ref_def store_set_def mk_policy_def policies_get_all_def store_get_all_def

lemma value_match: "policy_category_value pc = category_value c \<longleftrightarrow> category_of pc = c"
  by (cases pc; cases c; simp)

lemma find_first:
  "xs = pre @ p # post \<Longrightarrow> P p \<Longrightarrow> \<forall>q\<in>set pre. \<not> P q \<Longrightarrow> List.find P xs = Some p"
  by (induction pre arbitrary: xs) auto

lemma get_policy_none:
  "\<forall>p\<in>set (policies_get_all s). category_of (p_category p) \<noteq> c \<Longrightarrow>
   get_policy_for_category s c = None"
  by (simp add: get_policy_for_category_def find_None_iff value_match)

lemma get_policy_first:
  "policies_get_all s = pre @ p # post \<Longrightarrow> category_of (p_category p) = c \<Longrightarrow>
   \<forall>q\<in>set pre. category_of (p_category q) \<noteq> c \<Longrightarrow> get_policy_for_category s c = Some p"
  unfolding get_policy_for_category_def
  by (rule find_first[where pre = pre and post = post]) (simp_all add: value_match)

text \<open>
  Claim C3. For every category \<open>c\<close> and confidence \<open>x\<close>: when \<open>c\<close> is \<^verbatim>\<open>none\<close>, \<open>decide\<close>
  returns (none, null) and reads the policy registry zero times; when no policy of the
  registry has category \<open>c\<close>, it returns (none, null); when \<open>p\<close> is the first policy of the
  registry with category \<open>c\<close>, it returns (none, null) if \<open>p\<close> is disabled and otherwise
  the action found by comparing \<open>x\<close> with the thresholds of \<open>p\<close> from the highest to the
  lowest, with the id of \<open>p\<close> as policy id, also when the action is none.
\<close>

theorem decide_by_thresholds:
  "(c = CAT_NONE \<longrightarrow> decide s c x = ((ACT_NONE, None), 0)) \<and>
   (c \<noteq> CAT_NONE \<and> (\<forall>p\<in>set (policies_get_all s). category_of (p_category p) \<noteq> c) \<longrightarrow>
      fst (decide s c x) = (ACT_NONE, None)) \<and>
   (c \<noteq> CAT_NONE \<and> policies_get_all s = pre @ p # post \<and> category_of (p_category p) = c \<and>
    (\<forall>q\<in>set pre. category_of (p_category q) \<noteq> c) \<longrightarrow>
      fst (decide s c x) =
        (if \<not> p_enabled p then (ACT_NONE, None)
         else if x \<ge> p_flag_threshold p then (FLAG_FOR_REVIEW, Some (p_policy_id p))
         else if x \<ge> p_mute_threshold p then (MUTE, Some (p_policy_id p))
         else if x \<ge> p_warn_threshold p then (WARN, Some (p_policy_id p))
         else (ACT_NONE, Some (p_policy_id p))))"
proof (intro conjI impI)
  assume "c = CAT_NONE"
  then show "decide s c x = ((ACT_NONE, None), 0)" by (simp add: decide_def)
next
  assume "c \<noteq> CAT_NONE \<and> (\<forall>p\<in>set (policies_get_all s). category_of (p_category p) \<noteq> c)"
  then show "fst (decide s c x) = (ACT_NONE, None)"
    by (simp add: decide_def get_policy_none)
next
  assume a: "c \<noteq> CAT_NONE \<and> policies_get_all s = pre @ p # post \<and>
    category_of (p_category p) = c \<and> (\<forall>q\<in>set pre. category_of (p_category q) \<noteq> c)"
  then have "get_policy_for_category s c = Some p"
    using get_policy_first[of s pre p post c] by blast
  with a show "fst (decide s c x) =
        (if \<not> p_enabled p then (ACT_NONE, None)
         else if x \<ge> p_flag_threshold p then (FLAG_FOR_REVIEW, Some (p_policy_id p))
         else if x \<ge> p_mute_threshold p then (MUTE, Some (p_policy_id p))
         else if x \<ge> p_warn_threshold p then (WARN, Some (p_policy_id p))
         else (ACT_NONE, Some (p_policy_id p)))"
    by (simp add: decide_def)
qed

text \<open>
  The three cases on the seeded registry and on an empty one: category none; spam with no
  policy at all; spam at 0.55, below the warn threshold 0.6 of the third policy; harassment
  at 0.9, above the flag threshold 0.85 of the first.
\<close>

theorem decide_by_thresholds_witness:
  "decide seeded CAT_NONE (9/10) = ((ACT_NONE, None), 0) \<and>
   fst (decide empty_state SPAM (9/10)) = (ACT_NONE, None) \<and>
   fst (decide seeded SPAM (55/100)) = (ACT_NONE, Some ''policy-spam'') \<and>
   fst (decide seeded HARASSMENT (9/10)) = (FLAG_FOR_REVIEW, Some ''policy-harassment'')"
  using decide_by_thresholds[of CAT_NONE seeded "9/10"]
    decide_by_thresholds[of SPAM empty_state "9/10"]
    decide_by_thresholds[of SPAM seeded "55/100" "take 2 (policies_get_all seeded)"
      "policies_get_all seeded ! 2" "drop 3 (policies_get_all seeded)"]
    decide_by_thresholds[of HARASSMENT seeded "9/10" "[]"
      "policies_get_all seeded ! 0" "drop 1 (policies_get_all seeded)"]
  by (simp add: seeded_simps)

section \<open>The scoring stage\<close>

text \<open>
  Claim C7, as stated: for category none the rationale returned by \<open>score\<close> would be the
  text \<^verbatim>\<open>no violation detected\<close>. The source returns another literal.
\<close>

theorem score_none_rationale_counterexample:
  "fst (score failing_chain ''hello'' (Some CAT_NONE) []) \<noteq> (0, ''no violation detected'')"
  by (simp add: score_def)

text \<open>
  Claim C7, amended. For every content, reasoning and chain, \<open>score\<close> on category none
  returns confidence 0 with the rationale \<^verbatim>\<open>No violation detected\<close> and invokes the chain
  zero times.
\<close>

theorem score_none_short_circuit:
  "score chain content (Some CAT_NONE) reasoning = ((0, ''No violation detected''), 0)"
  by (simp add: score_def)

section \<open>Store and ledger lemmas\<close>

lemma store_get_set: "store_get (store_set st k r) k = Some r"
  by (simp add: store_get_def store_set_def update_conv')

lemma store_set_same: "store_get st k = Some r \<Longrightarrow> store_set st k r = st"
  by (simp add: store_get_def store_set_def update_triv)

lemma ref_below_new: "(k, x) \<in> set st \<Longrightarrow> x < new_ref st"
  by (induction st) (auto simp: new_ref_def)

lemma new_ref_set: "new_ref (store_set st k r) > r"
proof -
  have "map_of (AList.update k r st) k = Some r" by (simp add: update_conv')
  then have "(k, r) \<in> set (store_set st k r)" unfolding store_set_def by (rule map_of_SomeD)
  then show ?thesis by (rule ref_below_new)
qed

lemma store_get_set_other: "k \<noteq> k' \<Longrightarrow> store_get (store_set st k' r) k = store_get st k"
  by (simp add: store_get_def store_set_def update_conv')

lemma stored_ref_below_new: "store_get st k = Some r \<Longrightarrow> r < new_ref st"
  unfolding store_get_def by (drule map_of_SomeD) (rule ref_below_new)

section \<open>The action executor\<close>

lemma store_set_twice: "store_set (store_set st k r) k r = store_set st k r"
  by (rule store_set_same) (rule store_get_set)

lemmas execute_unfold = execute_def Let_def execute_action_def create_audit_entry_def
  audit_append_def

lemma execute_audit_prefix:
  "\<exists>es. audit_store (snd (execute s i c x a p rs dst st1 st2)) = audit_store s @ es"
  by (simp add: execute_unfold)

lemma execute_store:
  "decisions_store (snd (execute s i c x a p rs dst st1 st2)) = decisions_store s \<or>
   decisions_store (snd (execute s i c x a p rs dst st1 st2)) =
     store_set (decisions_store s) (fst dst) (new_ref (decisions_store s))"
  by (simp add: execute_unfold store_set_twice)

lemma execute_objs:
  "r \<noteq> new_ref (decisions_store s) \<Longrightarrow>
   decision_objs (snd (execute s i c x a p rs dst st1 st2)) r = decision_objs s r"
  by (simp add: execute_unfold)

lemma execute_policies:
  "policy_objs (snd (execute s i c x a p rs dst st1 st2)) = policy_objs s \<and>
   policies_store (snd (execute s i c x a p rs dst st1 st2)) = policies_store s"
  by (simp add: execute_unfold)

lemma execute_frame:
  assumes "r < new_ref (decisions_store s)"
  shows "r < new_ref (decisions_store (snd (execute s i c x a p rs dst st1 st2))) \<and>
         decision_objs (snd (execute s i c x a p rs dst st1 st2)) r = decision_objs s r"
proof
  have "new_ref (decisions_store s)
          < new_ref (store_set (decisions_store s) (fst dst) (new_ref (decisions_store s)))"
    by (rule new_ref_set)
  with assms have "r < new_ref (store_set (decisions_store s) (fst dst) (new_ref (decisions_store s)))"
    by (rule less_trans)
  with assms execute_store[of s i c x a p rs dst st1 st2]
  show "r < new_ref (decisions_store (snd (execute s i c x a p rs dst st1 st2)))"
    by (elim disjE) simp_all
  from assms have "r \<noteq> new_ref (decisions_store s)" by simp
  then show "decision_objs (snd (execute s i c x a p rs dst st1 st2)) r = decision_objs s r"
    by (rule execute_objs)
qed

lemma action_node_state:
  "snd (action_node s st dst st1 st2) = s \<or>
   (\<exists>i c x a p rs. snd (action_node s st dst st1 st2) = snd (execute s i c x a p rs dst st1 st2))"
proof (cases "\<exists>c x a. st_category st = Some c \<and> st_confidence st = Some x \<and> st_action st = Some a")
  case True
  then obtain c x a where "st_category st = Some c" "st_confidence st = Some x" "st_action st = Some a"
    by blast
  then have "snd (action_node s st dst st1 st2) = snd (execute s (st_input st) c x a (st_policy_id st)
       (join '' | '' ((case st_classification_reasoning st of
               None \<Rightarrow> []
             | Some r \<Rightarrow> if truthy r then [''Classification: '' @ py_str r] else [])
            @ (case st_scoring_factors st of
                 None \<Rightarrow> [] | Some f \<Rightarrow> if f = [] then [] else [''Scoring: '' @ f]))) dst st1 st2)"
    unfolding action_node_def Let_def
    by (simp split: prod.splits sum.splits)
  then show ?thesis by blast
next
  case False
  then have "snd (action_node s st dst st1 st2) = s"
    by (cases "st_category st"; cases "st_confidence st"; cases "st_action st")
       (simp_all add: action_node_def Let_def)
  then show ?thesis by simp
qed

lemma pipeline_state:
  "snd (pipeline_invoke cl ch s st dst st1 st2) = s \<or>
   (\<exists>sb. snd (pipeline_invoke cl ch s st dst st1 st2) = snd (action_node s sb dst st1 st2))"
proof (cases "classify_node cl st")
  case (Inl e)
  then show ?thesis by (simp add: pipeline_invoke_def)
next
  case (Inr sa)
  show ?thesis
  proof (cases "score_node ch sa")
    case (Inl e)
    with Inr show ?thesis by (simp add: pipeline_invoke_def)
  next
    case (Inr sb)
    with \<open>classify_node cl st = Inr sa\<close>
    have "snd (pipeline_invoke cl ch s st dst st1 st2)
            = snd (action_node s (decide_node s sb) dst st1 st2)"
      by (simp add: pipeline_invoke_def case_prod_beta)
    then show ?thesis by blast
  qed
qed

lemma moderate_pipeline:
  "snd (moderate_content cl ch s i0 dst st1 st2)
     = snd (pipeline_invoke cl ch s (initial_state i0) dst st1 st2)"
  by (simp add: moderate_content_def split: prod.splits sum.splits)

lemma moderate_state:
  "snd (moderate_content cl ch s i0 dst st1 st2) = s \<or>
   (\<exists>i c x a p rs. snd (moderate_content cl ch s i0 dst st1 st2)
      = snd (execute s i c x a p rs dst st1 st2))"
proof -
  from pipeline_state[of cl ch s "initial_state i0" dst st1 st2] show ?thesis
  proof
    assume "snd (pipeline_invoke cl ch s (initial_state i0) dst st1 st2) = s"
    then show ?thesis by (simp add: moderate_pipeline)
  next
    assume "\<exists>sb. snd (pipeline_invoke cl ch s (initial_state i0) dst st1 st2)
              = snd (action_node s sb dst st1 st2)"
    then obtain sb where "snd (pipeline_invoke cl ch s (initial_state i0) dst st1 st2)
              = snd (action_node s sb dst st1 st2)" by blast
    with action_node_state[of s sb dst st1 st2] show ?thesis
      by (simp add: moderate_pipeline)
  qed
qed

lemma moderate_audit_prefix:
  "\<exists>es. audit_store (snd (moderate_content cl ch s i dst st1 st2)) = audit_store s @ es"
proof -
  from moderate_state[of cl ch s i dst st1 st2] show ?thesis
  proof
    assume "snd (moderate_content cl ch s i dst st1 st2) = s"
    then show ?thesis by simp
  next
    assume "\<exists>i' c x a p rs. snd (moderate_content cl ch s i dst st1 st2)
      = snd (execute s i' c x a p rs dst st1 st2)"
    then obtain i' c x a p rs where "snd (moderate_content cl ch s i dst st1 st2)
      = snd (execute s i' c x a p rs dst st1 st2)" by blast
    then show ?thesis using execute_audit_prefix[of s i' c x a p rs dst st1 st2] by simp
  qed
qed

lemma moderate_frame:
  assumes "r < new_ref (decisions_store s)"
  shows "r < new_ref (decisions_store (snd (moderate_content cl ch s i dst st1 st2))) \<and>
         decision_objs (snd (moderate_content cl ch s i dst st1 st2)) r = decision_objs s r"
proof -
  from moderate_state[of cl ch s i dst st1 st2] show ?thesis
  proof
    assume "snd (moderate_content cl ch s i dst st1 st2) = s"
    with assms show ?thesis by simp
  next
    assume "\<exists>i' c x a p rs. snd (moderate_content cl ch s i dst st1 st2)
      = snd (execute s i' c x a p rs dst st1 st2)"
    then obtain i' c x a p rs where "snd (moderate_content cl ch s i dst st1 st2)
      = snd (execute s i' c x a p rs dst st1 st2)" by blast
    then show ?thesis using execute_frame[OF assms, of i' c x a p rs dst st1 st2] by simp
  qed
qed

lemma review_store: "decisions_store (snd (review_decision s k ap n st)) = decisions_store s"
  by (simp add: review_decision_def Let_def audit_append_def store_set_same split: option.splits)

lemma review_objs:
  "decision_objs (snd (review_decision s k ap n st)) r = decision_objs s r \<or>
   decision_objs (snd (review_decision s k ap n st)) r = (decision_objs s r)\<lparr>d_status := REVIEWED\<rparr>"
  by (simp add: review_decision_def Let_def audit_append_def split: option.splits)

lemma review_audit_prefix:
  "\<exists>es. audit_store (snd (review_decision s k ap n st)) = audit_store s @ es"
  by (simp add: review_decision_def Let_def audit_append_def split: option.splits)

lemma overturn_store: "decisions_store (snd (overturn_decision s k rs st)) = decisions_store s"
  by (simp add: overturn_decision_def Let_def audit_append_def store_set_same split: option.splits)

lemma overturn_objs:
  "decision_objs (snd (overturn_decision s k rs st)) r = decision_objs s r \<or>
   decision_objs (snd (overturn_decision s k rs st)) r = (decision_objs s r)\<lparr>d_status := OVERTURNED\<rparr>"
  by (simp add: overturn_decision_def Let_def audit_append_def split: option.splits)

lemma overturn_audit_prefix:
  "\<exists>es. audit_store (snd (overturn_decision s k rs st)) = audit_store s @ es"
  by (simp add: overturn_decision_def Let_def audit_append_def split: option.splits)

lemma update_policy_decisions:
  "decisions_store (snd (update_policy s k u now st)) = decisions_store s \<and>
   decision_objs (snd (update_policy s k u now st)) = decision_objs s"
  by (simp add: update_policy_def Let_def audit_append_def case_prod_beta split: option.splits)

lemma update_policy_audit_prefix:
  "\<exists>es. audit_store (snd (update_policy s k u now st)) = audit_store s @ es"
  by (simp add: update_policy_def Let_def audit_append_def case_prod_beta split: option.splits)

lemma toggle_policy_decisions:
  "decisions_store (snd (toggle_policy s k now st)) = decisions_store s \<and>
   decision_objs (snd (toggle_policy s k now st)) = decision_objs s"
  by (simp add: toggle_policy_def Let_def audit_append_def split: option.splits)

lemma toggle_policy_audit_prefix:
  "\<exists>es. audit_store (snd (toggle_policy s k now st)) = audit_store s @ es"
  by (simp add: toggle_policy_def Let_def audit_append_def split: option.splits)

section \<open>Sequences of operations\<close>

lemma step_audit_prefix: "\<exists>es. audit_store (step s op) = audit_store s @ es"
  by (cases op)
     (simp_all add: moderate_audit_prefix execute_audit_prefix review_audit_prefix
        overturn_audit_prefix update_policy_audit_prefix toggle_policy_audit_prefix)

lemma run_audit_prefix: "\<exists>es. audit_store (run s ops) = audit_store s @ es"
proof (induction ops arbitrary: s)
  case Nil
  show ?case by (simp add: run_def)
next
  case (Cons op ops)
  obtain es1 where "audit_store (step s op) = audit_store s @ es1"
    using step_audit_prefix by blast
  moreover obtain es2 where "audit_store (run (step s op) ops) = audit_store (step s op) @ es2"
    using Cons.IH by blast
  ultimately show ?case by (simp add: run_def)
qed

lemma step_frame:
  assumes "r < new_ref (decisions_store s)"
  shows "r < new_ref (decisions_store (step s op)) \<and>
         (decision_objs (step s op) r)\<lparr>d_status := x\<rparr> = (decision_objs s r)\<lparr>d_status := x\<rparr> \<and>
         status_rank (d_status (decision_objs s r)) \<le> status_rank (d_status (decision_objs (step s op) r))"
proof (cases op)
  case (Moderate cl ch i dst st1 st2)
  then show ?thesis using moderate_frame[OF assms, of cl ch i dst st1 st2] by simp
next
  case (Execute i c y a p rs dst st1 st2)
  then show ?thesis using execute_frame[OF assms, of i c y a p rs dst st1 st2] by simp
next
  case (Review k ap n st)
  have "status_rank z \<le> 2" for z by (cases z) simp_all
  then show ?thesis using Review assms review_store[of s k ap n st] review_objs[of s k ap n st r]
    by auto
next
  case (Overturn k rs st)
  have "status_rank z \<le> 2" for z by (cases z) simp_all
  then show ?thesis using Overturn assms overturn_store[of s k rs st] overturn_objs[of s k rs st r]
    by auto
next
  case (UpdatePolicy k u now st)
  then show ?thesis using assms update_policy_decisions[of s k u now st] by simp
next
  case (TogglePolicy k now st)
  then show ?thesis using assms toggle_policy_decisions[of s k now st] by simp
qed

lemma run_frame:
  assumes "r < new_ref (decisions_store s)"
  shows "(decision_objs (run s ops) r)\<lparr>d_status := x\<rparr> = (decision_objs s r)\<lparr>d_status := x\<rparr> \<and>
         status_rank (d_status (decision_objs s r)) \<le> status_rank (d_status (decision_objs (run s ops) r))"
  using assms
proof (induction ops arbitrary: s)
  case Nil
  show ?case by (simp add: run_def)
next
  case (Cons op ops)
  from step_frame[OF Cons.prems, of op x]
  have a: "r < new_ref (decisions_store (step s op))"
    and b: "(decision_objs (step s op) r)\<lparr>d_status := x\<rparr> = (decision_objs s r)\<lparr>d_status := x\<rparr>"
    and c: "status_rank (d_status (decision_objs s r)) \<le> status_rank (d_status (decision_objs (step s op) r))"
    by simp_all
  from Cons.IH[OF a] b c show ?case by (simp add: run_def)
qed


lemma step_keeps_key:
  assumes "store_get (decisions_store s) k = Some r" and "\<not> creates k op"
  shows "store_get (decisions_store (step s op)) k = Some r"
proof (cases op)
  case (Moderate cl ch i dst st1 st2)
  from moderate_state[of cl ch s i dst st1 st2] show ?thesis
  proof
    assume "snd (moderate_content cl ch s i dst st1 st2) = s"
    with Moderate assms show ?thesis by simp
  next
    assume "\<exists>i' c x a p rs. snd (moderate_content cl ch s i dst st1 st2)
      = snd (execute s i' c x a p rs dst st1 st2)"
    then obtain i' c x a p rs where "snd (moderate_content cl ch s i dst st1 st2)
      = snd (execute s i' c x a p rs dst st1 st2)" by blast
    with Moderate assms execute_store[of s i' c x a p rs dst st1 st2] show ?thesis
      by (auto simp: store_get_set_other)
  qed
next
  case (Execute i c y a p rs dst st1 st2)
  with assms execute_store[of s i c y a p rs dst st1 st2] show ?thesis
    by (auto simp: store_get_set_other)
next
  case (Review k' ap n st)
  then show ?thesis using assms review_store[of s k' ap n st] by simp
next
  case (Overturn k' rs st)
  then show ?thesis using assms overturn_store[of s k' rs st] by simp
next
  case (UpdatePolicy k' u now st)
  then show ?thesis using assms update_policy_decisions[of s k' u now st] by simp
next
  case (TogglePolicy k' now st)
  then show ?thesis using assms toggle_policy_decisions[of s k' now st] by simp
qed

lemma run_keeps_key:
  "store_get (decisions_store s) k = Some r \<Longrightarrow> \<forall>op\<in>set ops. \<not> creates k op \<Longrightarrow>
   store_get (decisions_store (run s ops)) k = Some r"
proof (induction ops arbitrary: s)
  case Nil
  then show ?case by (simp add: run_def)
next
  case (Cons op ops)
  then have "store_get (decisions_store (step s op)) k = Some r"
    using step_keeps_key[of s k r op] by simp
  from Cons.IH[OF this] Cons.prems(2) show ?case by (simp add: run_def)
qed

lemmas demo_simps = seeded_simps execute_unfold demo_input_def decisions_get_def store_get_def
  overturn_decision_def review_decision_def

section \<open>Audit completeness of the Act stage\<close>

text \<open>
  Claim C1. Whenever \<open>execute\<close> returns a decision, the entries it appended to the audit
  ledger are, in order: exactly one \<^verbatim>\<open>decision_created\<close> entry referencing the decision's
  id and then, if and only if the action is not none, exactly one entry referencing the
  same id, of type \<^verbatim>\<open>participant_warned\<close> for warn, \<^verbatim>\<open>participant_muted\<close> for mute and
  \<^verbatim>\<open>content_flagged\<close> for flag_for_review. The decision stored under that id is the one
  returned; its status is executed when the action is not none and pending otherwise.
\<close>

theorem execute_audit_completeness:
  assumes "execute s input_data category confidence action policy_id reasoning dst st1 st2 = (Inr r, s')"
  shows "audit_store s' = audit_store s @ appended s s' \<and>
         map (\<lambda>e. (a_action_type e, a_decision_id e)) (appended s s') =
           (DECISION_CREATED, Some (fst dst)) #
           (case action of
              ACT_NONE \<Rightarrow> []
            | WARN \<Rightarrow> [(PARTICIPANT_WARNED, Some (fst dst))]
            | MUTE \<Rightarrow> [(PARTICIPANT_MUTED, Some (fst dst))]
            | FLAG_FOR_REVIEW \<Rightarrow> [(CONTENT_FLAGGED, Some (fst dst))]) \<and>
         decisions_get s' (fst dst) = Some (decision_objs s' r) \<and>
         d_decision_id (decision_objs s' r) = fst dst \<and>
         d_action (decision_objs s' r) = action \<and>
         d_status (decision_objs s' r) = (if action = ACT_NONE then PENDING else EXECUTED)"
  using assms
  by (cases action)
     (auto simp: execute_def Let_def execute_action_def create_audit_entry_def audit_append_def
        appended_def decisions_get_def store_get_set split: if_splits)

text \<open>A flagged harassment event and a clean event, each run on the seeded state.\<close>

theorem execute_audit_completeness_witness:
  "(let s' = snd (execute seeded demo_input HARASSMENT (9/10) FLAG_FOR_REVIEW
                   (Some ''policy-harassment'') ''rude'' (''dec-1'', 1) (''audit-1'', 2) (''audit-2'', 3))
    in map (\<lambda>e. (a_action_type e, a_decision_id e)) (audit_store s') =
         [(DECISION_CREATED, Some ''dec-1''), (CONTENT_FLAGGED, Some ''dec-1'')] \<and>
       map_option d_status (decisions_get s' ''dec-1'') = Some EXECUTED) \<and>
   (let s' = snd (execute seeded demo_input CAT_NONE 0 ACT_NONE None [] (''dec-1'', 1) (''audit-1'', 2) (''audit-2'', 3))
    in map (\<lambda>e. (a_action_type e, a_decision_id e)) (audit_store s') =
         [(DECISION_CREATED, Some ''dec-1'')] \<and>
       map_option d_status (decisions_get s' ''dec-1'') = Some PENDING)"
  using execute_audit_completeness[of seeded demo_input HARASSMENT "9/10" FLAG_FOR_REVIEW
      "Some ''policy-harassment''" "''rude''" "(''dec-1'', 1)" "(''audit-1'', 2)" "(''audit-2'', 3)" 1
      "snd (execute seeded demo_input HARASSMENT (9/10) FLAG_FOR_REVIEW
                   (Some ''policy-harassment'') ''rude'' (''dec-1'', 1) (''audit-1'', 2) (''audit-2'', 3))"]
    execute_audit_completeness[of seeded demo_input CAT_NONE 0 ACT_NONE None "[]"
      "(''dec-1'', 1)" "(''audit-1'', 2)" "(''audit-2'', 3)" 1
      "snd (execute seeded demo_input CAT_NONE 0 ACT_NONE None [] (''dec-1'', 1) (''audit-1'', 2) (''audit-2'', 3))"]
  by (simp add: demo_simps appended_def)

section \<open>The status order\<close>

text \<open>
  Claim C6, as stated: no operation moves a decision out of the overturned state. A
  review of an overturned decision does.
\<close>

theorem status_leaves_overturned_counterexample:
  "map_option d_status (decisions_get demo_overturned ''dec-1'') = Some OVERTURNED \<and>
   map_option d_status
     (decisions_get (snd (review_decision demo_overturned ''dec-1'' True None (''audit-4'', 5)))
        ''dec-1'') = Some REVIEWED"
  by (simp add: demo_simps demo_flagged_def demo_overturned_def)

text \<open>
  Claim C6, amended. Order the statuses by stage: pending, then executed, then reviewed and
  overturned together. For every decision stored under an id and every sequence of core
  operations, the decision object keeps every field other than its status, and the stage
  of its status never decreases; it is still the decision stored under that id unless an
  operation of the sequence created a decision under the same id. (Inside the last stage
  a review moves overturned to reviewed and an overturn moves reviewed to overturned.)
\<close>

theorem status_rank_never_decreases:
  assumes "store_get (decisions_store s) k = Some r"
  shows "(decision_objs (run s ops) r)\<lparr>d_status := d_status (decision_objs s r)\<rparr> = decision_objs s r \<and>
         status_rank (d_status (decision_objs s r)) \<le> status_rank (d_status (decision_objs (run s ops) r)) \<and>
         ((\<forall>op\<in>set ops. \<not> creates k op) \<longrightarrow>
            decisions_get (run s ops) k = Some (decision_objs (run s ops) r))"
proof -
  have "r < new_ref (decisions_store s)" using assms by (rule stored_ref_below_new)
  from run_frame[OF this, where ops = ops and x = "d_status (decision_objs s r)"]
  have "(decision_objs (run s ops) r)\<lparr>d_status := d_status (decision_objs s r)\<rparr> = decision_objs s r"
    and "status_rank (d_status (decision_objs s r)) \<le> status_rank (d_status (decision_objs (run s ops) r))"
    by simp_all
  moreover have "decisions_get (run s ops) k = Some (decision_objs (run s ops) r)"
    if "\<forall>op\<in>set ops. \<not> creates k op"
    using run_keeps_key[OF assms that] by (simp add: decisions_get_def)
  ultimately show ?thesis by blast
qed

text \<open>
  The flagged decision of the example, overturned and then reviewed: it ends as reviewed,
  with its other fields as they were.
\<close>

theorem status_rank_never_decreases_witness:
  "store_get (decisions_store seeded) ''dec-1'' = None \<and>
   store_get (decisions_store demo_flagged) ''dec-1'' = Some 1 \<and>
   d_status (decision_objs demo_flagged 1) = EXECUTED \<and>
   d_status (decision_objs (run demo_flagged
      [Overturn ''dec-1'' ''mistake'' (''audit-3'', 4), Review ''dec-1'' True None (''audit-4'', 5)]) 1)
     = REVIEWED \<and>
   (decision_objs (run demo_flagged
      [Overturn ''dec-1'' ''mistake'' (''audit-3'', 4), Review ''dec-1'' True None (''audit-4'', 5)]) 1)
     \<lparr>d_status := EXECUTED\<rparr> = decision_objs demo_flagged 1"
  using status_rank_never_decreases[of demo_flagged "''dec-1''" 1
      "[Overturn ''dec-1'' ''mistake'' (''audit-3'', 4), Review ''dec-1'' True None (''audit-4'', 5)]"]
  by (simp add: demo_simps demo_flagged_def run_def)

section \<open>Listing with an empty string filter\<close>

text \<open>
  Claim C10. In the list and export queries over audit entries an empty \<^verbatim>\<open>decision_id\<close>,
  and in the list query over decisions an empty \<^verbatim>\<open>room_id\<close> or \<^verbatim>\<open>participant_id\<close>, gives the
  same answer as the absent parameter, whatever the other parameters are.
\<close>

theorem empty_string_filter_is_absent:
  "list_audit_logs s (Some []) atype actor t0 t1 limit offset
     = list_audit_logs s None atype actor t0 t1 limit offset \<and>
   export_audit_logs s fmt (Some []) atype actor t0 t1 = export_audit_logs s fmt None atype actor t0 t1 \<and>
   list_decisions s (Some []) pid cl a stt mn mx limit offset
     = list_decisions s None pid cl a stt mn mx limit offset \<and>
   list_decisions s rid (Some []) cl a stt mn mx limit offset
     = list_decisions s rid None cl a stt mn mx limit offset"
  by (simp add: list_audit_logs_def export_audit_logs_def list_decisions_def audit_filters_def)


section \<open>Overturning twice\<close>

lemma overturn_first:
  assumes "store_get (decisions_store s) k = Some r" and "d_status (decision_objs s r) \<noteq> OVERTURNED"
  shows "overturn_decision s k reason st =
    (Inr (k, OVERTURNED),
     s\<lparr>decision_objs := (decision_objs s)(r := (decision_objs s r)\<lparr>d_status := OVERTURNED\<rparr>),
       audit_store := audit_store s @
         [\<lparr>a_audit_id = fst st, a_decision_id = Some k, a_action_type = DECISION_OVERTURNED,
           a_actor = ADMIN, a_reason = [S reason], a_timestamp = snd st,
           a_metadata = Some (OverturnMeta (d_action (decision_objs s r))
              (d_classification (decision_objs s r)) (d_confidence_score (decision_objs s r)))\<rparr>]\<rparr>)"
  using assms by (simp add: overturn_decision_def Let_def audit_append_def store_set_same)

text \<open>
  Claim C4, as stated: for every decision whose status is not overturned, after two
  overturn calls exactly one \<^verbatim>\<open>decision_overturned\<close> entry would exist for it in total. The
  flagged decision of the example, overturned and then reviewed, has the status reviewed
  and already one such entry; the first of two further overturn calls succeeds, the
  second fails with AlreadyOverturned, and the ledger then holds two such entries.
\<close>

theorem overturn_total_counterexample:
  "map_option d_status (decisions_get demo_reviewed ''dec-1'') = Some REVIEWED \<and>
   fst (overturn_decision demo_reviewed ''dec-1'' ''again'' (''audit-5'', 6))
     = Inr (''dec-1'', OVERTURNED) \<and>
   fst (overturn_decision demo_overturned_again ''dec-1'' ''once more'' (''audit-6'', 7))
     = Inl AlreadyOverturned \<and>
   count_overturned
     (audit_store (snd (overturn_decision demo_overturned_again ''dec-1'' ''once more''
                          (''audit-6'', 7)))) ''dec-1'' = 2"
  by (simp add: demo_simps demo_flagged_def demo_overturned_def demo_reviewed_def
      demo_overturned_again_def count_overturned_def AlreadyOverturned_def)

text \<open>
  Claim C4, amended. For every stored decision whose status is not overturned, a first
  overturn call succeeds, sets the status to overturned and appends exactly one
  \<^verbatim>\<open>decision_overturned\<close> entry for the decision; a second overturn call on the same
  decision fails with AlreadyOverturned and leaves the whole state, the audit ledger
  included, as it was. The two calls together add exactly one \<^verbatim>\<open>decision_overturned\<close> entry
  for the decision, so exactly one exists in total when none existed before the first
  call.
\<close>

theorem overturn_twice:
  assumes "decisions_get s k = Some d" and "d_status d \<noteq> OVERTURNED"
  shows "let (res1, s1) = overturn_decision s k reason1 st1;
             (res2, s2) = overturn_decision s1 k reason2 st2
         in res1 = Inr (k, OVERTURNED) \<and>
            map_option d_status (decisions_get s1 k) = Some OVERTURNED \<and>
            audit_store s1 = audit_store s @ appended s s1 \<and>
            map (\<lambda>e. (a_action_type e, a_decision_id e)) (appended s s1)
              = [(DECISION_OVERTURNED, Some k)] \<and>
            res2 = Inl AlreadyOverturned \<and> s2 = s1 \<and>
            count_overturned (audit_store s2) k = Suc (count_overturned (audit_store s) k) \<and>
            (count_overturned (audit_store s) k = 0 \<longrightarrow>
               count_overturned (audit_store s2) k = 1)"
proof -
  from assms obtain r where r: "store_get (decisions_store s) k = Some r" "d = decision_objs s r"
    by (auto simp: decisions_get_def)
  with assms have st: "d_status (decision_objs s r) \<noteq> OVERTURNED" by simp
  show ?thesis
    unfolding overturn_first[OF r(1) st]
    using r(1)
    by (simp add: overturn_decision_def decisions_get_def appended_def count_overturned_def)
qed

text \<open>
  The flagged decision of the example, which has no \<^verbatim>\<open>decision_overturned\<close> entry yet,
  overturned twice.
\<close>

theorem overturn_twice_witness:
  "(let (res1, s1) = overturn_decision demo_flagged ''dec-1'' ''mistake'' (''audit-3'', 4);
        (res2, s2) = overturn_decision s1 ''dec-1'' ''again'' (''audit-4'', 5)
    in map_option d_status (decisions_get demo_flagged ''dec-1'') = Some EXECUTED \<and>
       count_overturned (audit_store demo_flagged) ''dec-1'' = 0 \<and>
       res1 = Inr (''dec-1'', OVERTURNED) \<and> res2 = Inl AlreadyOverturned \<and>
       map a_action_type (audit_store s2) = [DECISION_CREATED, CONTENT_FLAGGED, DECISION_OVERTURNED] \<and>
       count_overturned (audit_store s2) ''dec-1'' = 1)"
  using overturn_twice[of demo_flagged "''dec-1''" "decision_objs demo_flagged 1" "''mistake''"
      "(''audit-3'', 4)" "''again''" "(''audit-4'', 5)"]
  by (simp add: demo_simps demo_flagged_def count_overturned_def appended_def)

section \<open>The snapshot in the creation entry\<close>

text \<open>
  Claim C9. When \<open>execute\<close> returns a decision, the audit ledger holds, at the position
  where the call started appending, a \<^verbatim>\<open>decision_created\<close> entry for the decision whose
  metadata is the original input together with a snapshot of the decision: the stored
  decision in every field, with status pending. This stays so after the executor's own
  write of status executed and after every later sequence of operations, reviews and
  overturns included.
\<close>

theorem decision_created_snapshot:
  assumes "execute s input_data category confidence action policy_id reasoning dst st1 st2 = (Inr r, s1)"
  shows "let n = length (audit_store s); e = audit_store (run s1 ops) ! n
         in n < length (audit_store (run s1 ops)) \<and>
            a_action_type e = DECISION_CREATED \<and> a_decision_id e = Some (fst dst) \<and>
            a_metadata e =
              Some (DecisionCreatedMeta ((decision_objs s1 r)\<lparr>d_status := PENDING\<rparr>) input_data)"
proof -
  from assms have "0 \<le> confidence \<and> confidence \<le> 1" and r: "r = new_ref (decisions_store s)"
    by (auto simp: execute_def Let_def split: if_splits)
  with assms have
    "\<exists>es. audit_store s1 = audit_store s @
       \<lparr>a_audit_id = fst st1, a_decision_id = Some (fst dst), a_action_type = DECISION_CREATED,
         a_actor = AI,
         a_reason = [S ''Moderation decision created: '', S (category_value category),
                     S '' with confidence '', F2 confidence],
         a_timestamp = snd st1,
         a_metadata = Some (DecisionCreatedMeta ((decision_objs s1 r)\<lparr>d_status := PENDING\<rparr>) input_data)\<rparr> # es"
    by (auto simp: execute_unfold)
  then obtain e es where 1: "audit_store s1 = audit_store s @ e # es"
    and e: "a_action_type e = DECISION_CREATED" "a_decision_id e = Some (fst dst)"
      "a_metadata e = Some (DecisionCreatedMeta ((decision_objs s1 r)\<lparr>d_status := PENDING\<rparr>) input_data)"
    by force
  obtain es' where "audit_store (run s1 ops) = audit_store s1 @ es'"
    using run_audit_prefix by blast
  with 1 have "audit_store (run s1 ops) = audit_store s @ e # (es @ es')" by simp
  then have "audit_store (run s1 ops) ! length (audit_store s) = e"
    and "length (audit_store s) < length (audit_store (run s1 ops))" by simp_all
  with e show ?thesis by (simp add: Let_def)
qed


text \<open>
  The flagged decision of the example after an overturn and a review: the stored status
  is reviewed, the snapshot still shows the decision as created, with status pending.
\<close>

theorem decision_created_snapshot_witness:
  "d_status (decision_objs (run demo_flagged
      [Overturn ''dec-1'' ''mistake'' (''audit-3'', 4), Review ''dec-1'' True None (''audit-4'', 5)]) 1)
     = REVIEWED \<and>
   a_metadata (audit_store (run demo_flagged
      [Overturn ''dec-1'' ''mistake'' (''audit-3'', 4), Review ''dec-1'' True None (''audit-4'', 5)]) ! 0)
     = Some (DecisionCreatedMeta
         \<lparr>d_decision_id = ''dec-1'', d_room_id = ''room-1'', d_participant_id = ''p-1'',
          d_participant_identity = ''alice'', d_content = ''hello'', d_content_type = TEXT,
          d_classification = HARASSMENT, d_confidence_score = 9/10, d_action = FLAG_FOR_REVIEW,
          d_status = PENDING, d_policy_id = Some ''policy-harassment'', d_timestamp = 1,
          d_reasoning = Some ''rude'', d_metadata = None\<rparr>
         demo_input)"
  using decision_created_snapshot[of seeded demo_input HARASSMENT "9/10" FLAG_FOR_REVIEW
      "Some ''policy-harassment''" "''rude''" "(''dec-1'', 1)" "(''audit-1'', 2)" "(''audit-2'', 3)"
      1 demo_flagged
      "[Overturn ''dec-1'' ''mistake'' (''audit-3'', 4), Review ''dec-1'' True None (''audit-4'', 5)]"]
  by (simp add: demo_simps demo_flagged_def run_def)

section \<open>Policy updates\<close>

lemmas policy_simps = seeded_simps update_policy_def toggle_policy_def apply_updates_def
  valid_update_def valid_threshold_def no_update_def policies_get_def store_get_def
  audit_append_def Let_def

text \<open>
  Claim C2. The claim asks that an update rejected for its threshold order leave the
  stored policy as it was. On the seeded harassment policy (0.5, 0.7, 0.85) the update
  warn = 0.9, mute = 0.5 is rejected with InvalidThresholds and adds no audit entry, but
  the stored policy now has the thresholds (0.9, 0.5, 0.85), and the decision engine uses
  them: a confidence of 0.6 gave warn before the rejected update and gives mute after it.
\<close>

theorem rejected_update_keeps_field_writes:
  "fst (update_policy seeded ''policy-harassment'' bad_update 7 (''audit-1'', 8))
     = Inl InvalidThresholds \<and>
   map_option thresholds
     (policies_get seeded ''policy-harassment'') = Some (5/10, 7/10, 85/100) \<and>
   map_option thresholds
     (policies_get demo_rejected ''policy-harassment'') = Some (9/10, 5/10, 85/100) \<and>
   audit_store demo_rejected = audit_store seeded \<and>
   fst (decide seeded HARASSMENT (6/10)) = (WARN, Some ''policy-harassment'') \<and>
   fst (decide demo_rejected HARASSMENT (6/10)) = (MUTE, Some ''policy-harassment'')"
  by (simp add: policy_simps bad_update_def demo_rejected_def thresholds_def
      InvalidThresholds_def decide_def get_policy_for_category_def)


lemma changes_are_supplied: "fst (apply_updates p u) = supplied_changes p u"
  by (simp add: apply_updates_def supplied_changes_def Let_def split: option.splits)

lemma supplied_changes_empty: "supplied_changes p u = [] \<longleftrightarrow> supplies_nothing u"
  by (simp add: supplied_changes_def supplies_nothing_def split: option.splits)

lemma apply_updates_name:
  "p_name (snd (apply_updates p u)) = (case u_name u of None \<Rightarrow> p_name p | Some v \<Rightarrow> v)"
  by (simp add: apply_updates_def Let_def split: option.splits)

text \<open>
  Claim C8, as stated: an update that changes no field would append no audit entry, and
  the entry of a toggle would carry a \<^verbatim>\<open>changes\<close> map. An update that supplies the name the
  policy already has returns the policy with only \<^verbatim>\<open>updated_at\<close> refreshed and still appends
  an entry; the entry of a toggle carries \<^verbatim>\<open>old_enabled\<close> and \<^verbatim>\<open>new_enabled\<close> instead.
\<close>

theorem policy_audit_counterexample:
  "fst (update_policy seeded ''policy-harassment'' same_name_update 7 (''audit-1'', 8))
     = Inr ((policy_objs seeded 1)\<lparr>p_updated_at := 7\<rparr>) \<and>
   map a_action_type
     (audit_store (snd (update_policy seeded ''policy-harassment'' same_name_update 7 (''audit-1'', 8))))
     = [POLICY_UPDATED] \<and>
   map a_metadata (audit_store (snd (toggle_policy seeded ''policy-spam'' 7 (''audit-1'', 8))))
     = [Some (PolicyToggleMeta ''policy-spam'' ''Spam'' True False)]"
  by (simp add: policy_simps same_name_update_def)

text \<open>
  Claim C8, amended. A successful update of a stored policy appends no audit entry when
  it supplies no field, and otherwise exactly one entry of type \<^verbatim>\<open>policy_updated\<close>, by the
  admin, whose metadata carries the \<^verbatim>\<open>changes\<close> map with one old/new pair per supplied
  field, whether or not the value differs. A successful toggle appends exactly one entry
  of type \<^verbatim>\<open>policy_updated\<close>, by the admin, whose metadata carries the old and the new value
  of \<^verbatim>\<open>enabled\<close>.
\<close>

theorem policy_change_audit:
  assumes "policies_get s k = Some p"
  shows "(update_policy s k u now st = (Inr p', s') \<longrightarrow>
            audit_store s' = audit_store s @ appended s s' \<and>
            map audit_summary (appended s s') =
              (if supplies_nothing u then []
               else [(POLICY_UPDATED, ADMIN, None,
                      Some (PolicyChangesMeta k (p_name p') (supplied_changes p u)))])) \<and>
         (toggle_policy s k now st = (Inr x, s') \<longrightarrow>
            audit_store s' = audit_store s @ appended s s' \<and>
            map audit_summary (appended s s') =
              [(POLICY_UPDATED, ADMIN, None,
                Some (PolicyToggleMeta k (p_name p) (p_enabled p) (\<not> p_enabled p)))])"
proof (intro conjI impI)
  from assms obtain r where r: "store_get (policies_store s) k = Some r" "p = policy_objs s r"
    by (auto simp: policies_get_def)
  {
    assume a: "update_policy s k u now st = (Inr p', s')"
    then have s': "s' = snd (update_policy s k u now st)" and p': "p' = projr (fst (update_policy s k u now st))"
      by simp_all
    from a r have ok: "valid_update u"
      "p_warn_threshold (snd (apply_updates p u)) \<le> p_mute_threshold (snd (apply_updates p u))"
      "p_mute_threshold (snd (apply_updates p u)) \<le> p_flag_threshold (snd (apply_updates p u))"
      by (auto simp: update_policy_def Let_def case_prod_beta split: if_splits)
    from ok r show "audit_store s' = audit_store s @ appended s s'"
      unfolding s' by (simp add: update_policy_def Let_def case_prod_beta audit_append_def appended_def)
    from ok r show "map audit_summary (appended s s') =
              (if supplies_nothing u then []
               else [(POLICY_UPDATED, ADMIN, None,
                      Some (PolicyChangesMeta k (p_name p') (supplied_changes p u)))])"
      unfolding s' p'
      by (simp add: update_policy_def Let_def case_prod_beta audit_append_def appended_def
          audit_summary_def changes_are_supplied supplied_changes_empty)
  }
  {
    assume a: "toggle_policy s k now st = (Inr x, s')"
    then have s': "s' = snd (toggle_policy s k now st)" by simp
    from r show "audit_store s' = audit_store s @ appended s s'"
      unfolding s' by (simp add: toggle_policy_def Let_def audit_append_def appended_def)
    from r show "map audit_summary (appended s s') =
              [(POLICY_UPDATED, ADMIN, None,
                Some (PolicyToggleMeta k (p_name p) (p_enabled p) (\<not> p_enabled p)))]"
      unfolding s' by (simp add: toggle_policy_def Let_def audit_append_def appended_def audit_summary_def)
  }
qed


text \<open>
  On the seeded spam policy: lowering the warn threshold, an update that supplies
  nothing, and a toggle.
\<close>

theorem policy_change_audit_witness:
  "policies_get seeded ''policy-spam'' = Some (policy_objs seeded 3) \<and>
   map audit_summary
     (audit_store (snd (update_policy seeded ''policy-spam'' lower_warn 7 (''audit-1'', 8))))
     = [(POLICY_UPDATED, ADMIN, None,
         Some (PolicyChangesMeta ''policy-spam'' ''Spam''
                 [(''warn_threshold'', NumV (6/10), NumV (45/100))]))] \<and>
   audit_store (snd (update_policy seeded ''policy-spam'' no_update 7 (''audit-1'', 8))) = [] \<and>
   map audit_summary (audit_store (snd (toggle_policy seeded ''policy-spam'' 7 (''audit-1'', 8))))
     = [(POLICY_UPDATED, ADMIN, None, Some (PolicyToggleMeta ''policy-spam'' ''Spam'' True False))]"
  using
    policy_change_audit[where s = seeded and k = "''policy-spam''" and p = "policy_objs seeded 3"
      and u = lower_warn and now = 7 and st = "(''audit-1'', 8)"
      and p' = "(policy_objs seeded 3)\<lparr>p_warn_threshold := 45/100, p_updated_at := 7\<rparr>"
      and s' = "snd (update_policy seeded ''policy-spam'' lower_warn 7 (''audit-1'', 8))"
      and x = "(''policy-spam'', False)"]
    policy_change_audit[where s = seeded and k = "''policy-spam''" and p = "policy_objs seeded 3"
      and u = no_update and now = 7 and st = "(''audit-1'', 8)"
      and p' = "(policy_objs seeded 3)\<lparr>p_updated_at := 7\<rparr>"
      and s' = "snd (update_policy seeded ''policy-spam'' no_update 7 (''audit-1'', 8))"
      and x = "(''policy-spam'', False)"]
    policy_change_audit[where s = seeded and k = "''policy-spam''" and p = "policy_objs seeded 3"
      and u = no_update and now = 7 and st = "(''audit-1'', 8)"
      and p' = "policy_objs seeded 3"
      and s' = "snd (toggle_policy seeded ''policy-spam'' 7 (''audit-1'', 8))"
      and x = "(''policy-spam'', False)"]
  by (simp add: policy_simps lower_warn_def appended_def audit_summary_def supplied_changes_def supplies_nothing_def)

section \<open>Failure of the classification capability\<close>






end
